theory Spec2Isabelle
  imports Complex_Main
begin

section \<open>The constellation engine of gr-digital\<close>

text \<open>
  The development embeds \<^verbatim>\<open>constellation.cc\<close> (namespace \<^verbatim>\<open>gr::digital\<close>).

  Numbers. \<^verbatim>\<open>float\<close>, \<^verbatim>\<open>double\<close> and \<^verbatim>\<open>gr_complex\<close> are idealised: a float is a
  \<^typ>\<open>real\<close>, a \<^verbatim>\<open>gr_complex\<close> is a \<^typ>\<open>complex\<close>, every operation is the exact one.
  Rounding, infinities and NaN are outside the model; where the code divides a float by
  zero the model has the quotient 0 of \<^typ>\<open>real\<close>, and the statements below either
  exclude that divisor or do not depend on the quotient. \<^verbatim>\<open>unsigned int\<close> and
  \<^verbatim>\<open>size_t\<close> are \<^typ>\<open>nat\<close>, \<^verbatim>\<open>int\<close> is \<^typ>\<open>int\<close>, and the conversion of a float
  to an integer truncates towards zero; the 32-bit wrap-around and the undefined
  conversions are written out where the rectangular variant sizes its table and
  computes a sector.

  Objects. A class is a record and a derived class extends the record of its base. A
  member function takes the object and returns its result, with the updated object
  where it mutates. A virtual function called through the base class is an argument of
  the calling function. A sample pointer \<^verbatim>\<open>const gr_complex *\<close> is the list of the
  samples it points to.

  Failures. A \<^verbatim>\<open>throw std::runtime_error\<close> is a value \<open>Inl e\<close>. Reading a
  \<^verbatim>\<open>std::vector\<close> or a sample buffer outside its bounds and the remainder of a
  division by zero are undefined in C++; the model makes them the results
  \<open>Inl OutOfBounds\<close> and \<open>Inl DivisionByZero\<close>, so that they cannot go unnoticed.
\<close>

subsection \<open>Errors and checked reads\<close>

datatype error =
    ConfigurationError  \<comment> \<open>\<^verbatim>\<open>std::runtime_error\<close> thrown by the constructor or by \<^verbatim>\<open>calc_arity\<close>\<close>
  | RangeError          \<comment> \<open>\<^verbatim>\<open>std::runtime_error\<close> thrown by \<^verbatim>\<open>soft_decision_maker\<close>\<close>
  | OutOfBounds         \<comment> \<open>\<^verbatim>\<open>operator[]\<close> outside the vector or the buffer\<close>
  | DivisionByZero      \<comment> \<open>\<^verbatim>\<open>%\<close> or \<^verbatim>\<open>/\<close> on unsigned integers with divisor 0\<close>

definition vec_at :: "'a list \<Rightarrow> nat \<Rightarrow> error + 'a" where
  "vec_at xs i = (if i < length xs then Inr (xs ! i) else Inl OutOfBounds)"

definition vec_at_int :: "'a list \<Rightarrow> int \<Rightarrow> error + 'a" where
  \<comment> \<open>\<^verbatim>\<open>v[i]\<close> with an \<^verbatim>\<open>int\<close> index: a negative index converts to a huge \<^verbatim>\<open>size_t\<close>.\<close>
  "vec_at_int xs i = (if 0 \<le> i \<and> nat i < length xs then Inr (xs ! nat i) else Inl OutOfBounds)"

definition float_to_int :: "real \<Rightarrow> int" where
  \<comment> \<open>\<^verbatim>\<open>int(x)\<close>, \<^verbatim>\<open>static_cast<int>(x)\<close>: truncation towards zero.\<close>
  "float_to_int x = (if 0 \<le> x then \<lfloor>x\<rfloor> else \<lceil>x\<rceil>)"

text \<open>
  The sector arithmetic of the rectangular variant mixes \<^verbatim>\<open>int\<close> and \<^verbatim>\<open>unsigned int\<close>, both
  of 32 bits, and its results index a table, so there the wrap-around is written out:
  \<open>u32\<close> is the conversion to \<^verbatim>\<open>unsigned int\<close> (the value modulo \<open>2^32\<close>) and \<open>s32\<close> the
  conversion to \<^verbatim>\<open>int\<close> (two's complement). The conversion \<^verbatim>\<open>int(x)\<close> of a float whose
  truncation \<^verbatim>\<open>int\<close> cannot hold, or of the infinity or NaN that a division by a zero
  width gives, is undefined in C++ and yields some \<^verbatim>\<open>int\<close> that depends on the platform
  (the x86 conversion instruction gives \<open>-2^31\<close>). That \<^verbatim>\<open>int\<close> is the argument \<open>ub\<close>: a
  statement with \<open>ub\<close> free holds whatever the platform yields.
\<close>

definition u32 :: "int \<Rightarrow> nat" where
  "u32 i = nat (i mod 2 ^ 32)"

definition s32 :: "int \<Rightarrow> int" where
  "s32 i = (i + 2 ^ 31) mod 2 ^ 32 - 2 ^ 31"

definition float_to_int32 :: "int \<Rightarrow> real \<Rightarrow> int" where
  "float_to_int32 ub x =
     (if - (2 ^ 31) \<le> float_to_int x \<and> float_to_int x < 2 ^ 31 then float_to_int x else s32 ub)"

definition cnorm :: "complex \<Rightarrow> real" where
  \<comment> \<open>\<^verbatim>\<open>std::norm\<close>: the squared magnitude.\<close>
  "cnorm z = Re z * Re z + Im z * Im z"

subsection \<open>The base class\<close>

record constellation =
  d_constellation :: "complex list"
  d_pre_diff_code :: "int list"
  d_apply_pre_diff_code :: bool
  d_rotational_symmetry :: nat
  d_dimensionality :: nat
  d_arity :: nat
  d_scalefactor :: real
  d_re_min :: real
  d_re_max :: real
  d_im_min :: real
  d_im_max :: real
  d_soft_dec_lut :: "real list list"
  d_lut_precision :: int
  d_lut_scale :: real

definition calc_arity :: "'a constellation_scheme \<Rightarrow> error + 'a constellation_scheme" where
  "calc_arity c =
     (if d_dimensionality c = 0 then Inl DivisionByZero
      else if length (d_constellation c) mod d_dimensionality c \<noteq> 0 then Inl ConfigurationError
      else Inr (c\<lparr>d_arity := length (d_constellation c) div d_dimensionality c\<rparr>))"

definition summed_mag_of :: "complex list \<Rightarrow> real" where
  \<comment> \<open>The first loop of the constructor.\<close>
  "summed_mag_of constell = foldl (\<lambda>s c. s + sqrt (Re c * Re c + Im c * Im c)) 0 constell"

definition constellation_ctor ::
  "complex list \<Rightarrow> int list \<Rightarrow> nat \<Rightarrow> nat \<Rightarrow> error + constellation" where
  "constellation_ctor constell pre_diff_code rotational_symmetry dimensionality =
     (let constsize = length constell;
          summed_mag = summed_mag_of constell;
          scalefactor = real constsize / summed_mag;
          c = \<lparr>d_constellation = map (\<lambda>p. p * complex_of_real scalefactor) constell,
               d_pre_diff_code = pre_diff_code,
               d_apply_pre_diff_code = False,
               d_rotational_symmetry = rotational_symmetry,
               d_dimensionality = dimensionality,
               d_arity = 0,
               d_scalefactor = scalefactor,
               d_re_min = 10 ^ 20, d_re_max = 10 ^ 20,
               d_im_min = 10 ^ 20, d_im_max = 10 ^ 20,
               d_soft_dec_lut = [],
               d_lut_precision = 0,
               d_lut_scale = 0\<rparr>
      in if length pre_diff_code = 0 then calc_arity (c\<lparr>d_apply_pre_diff_code := False\<rparr>)
         else if length pre_diff_code \<noteq> constsize then Inl ConfigurationError
         else calc_arity (c\<lparr>d_apply_pre_diff_code := True\<rparr>))"

definition constellation_default :: "error + constellation" where
  \<comment> \<open>\<^verbatim>\<open>constellation::constellation()\<close>\<close>
  "constellation_default =
     calc_arity \<lparr>d_constellation = [],
                 d_pre_diff_code = [],
                 d_apply_pre_diff_code = False,
                 d_rotational_symmetry = 0,
                 d_dimensionality = 1,
                 d_arity = 0,
                 d_scalefactor = 1,
                 d_re_min = 10 ^ 20, d_re_max = 10 ^ 20,
                 d_im_min = 10 ^ 20, d_im_max = 10 ^ 20,
                 d_soft_dec_lut = [],
                 d_lut_precision = 0,
                 d_lut_scale = 0\<rparr>"

fun map_to_points_loop ::
  "'a constellation_scheme \<Rightarrow> nat \<Rightarrow> nat list \<Rightarrow> complex list \<Rightarrow> error + complex list" where
  "map_to_points_loop c v [] points = Inr points"
| "map_to_points_loop c v (i # is) points =
     (case vec_at (d_constellation c) (v * d_dimensionality c + i) of
        Inl e \<Rightarrow> Inl e
      | Inr p \<Rightarrow> map_to_points_loop c v is (points @ [p]))"

definition map_to_points_v :: "'a constellation_scheme \<Rightarrow> nat \<Rightarrow> error + complex list" where
  "map_to_points_v c v = map_to_points_loop c v [0..<d_dimensionality c] []"

fun get_distance_loop ::
  "'a constellation_scheme \<Rightarrow> nat \<Rightarrow> complex list \<Rightarrow> nat list \<Rightarrow> real \<Rightarrow> error + real" where
  "get_distance_loop c index sample [] dst = Inr dst"
| "get_distance_loop c index sample (i # is) dst =
     (case vec_at sample i of
        Inl e \<Rightarrow> Inl e
      | Inr s \<Rightarrow>
          (case vec_at (d_constellation c) (index * d_dimensionality c + i) of
             Inl e \<Rightarrow> Inl e
           | Inr p \<Rightarrow> get_distance_loop c index sample is (dst + cnorm (s - p))))"

definition get_distance :: "'a constellation_scheme \<Rightarrow> nat \<Rightarrow> complex list \<Rightarrow> error + real" where
  "get_distance c index sample = get_distance_loop c index sample [0..<d_dimensionality c] 0"

fun get_closest_point_loop ::
  "'a constellation_scheme \<Rightarrow> complex list \<Rightarrow> nat list \<Rightarrow> nat \<Rightarrow> real \<Rightarrow> error + nat" where
  "get_closest_point_loop c sample [] min_index min_euclid_dist = Inr min_index"
| "get_closest_point_loop c sample (j # js) min_index min_euclid_dist =
     (case get_distance c j sample of
        Inl e \<Rightarrow> Inl e
      | Inr euclid_dist \<Rightarrow>
          (if euclid_dist < min_euclid_dist
           then get_closest_point_loop c sample js j euclid_dist
           else get_closest_point_loop c sample js min_index min_euclid_dist))"

definition get_closest_point :: "'a constellation_scheme \<Rightarrow> complex list \<Rightarrow> error + nat" where
  "get_closest_point c sample =
     (case get_distance c 0 sample of
        Inl e \<Rightarrow> Inl e
      | Inr d0 \<Rightarrow> get_closest_point_loop c sample [1..<d_arity c] 0 d0)"

text \<open>\<^verbatim>\<open>constellation_calcdist\<close>: the constructor is the base constructor, the decision
  is the linear search.\<close>

definition constellation_calcdist_decision_maker ::
  "'a constellation_scheme \<Rightarrow> complex list \<Rightarrow> error + nat" where
  "constellation_calcdist_decision_maker c sample = get_closest_point c sample"

text \<open>The mean magnitude of a point set as the data model speaks of it: the summed
  magnitude of the stored points over the arity.\<close>

definition mean_magnitude :: "'a constellation_scheme \<Rightarrow> real" where
  "mean_magnitude c = (\<Sum>p\<leftarrow>d_constellation c. cmod p) / real (d_arity c)"

text \<open>What the constructors establish through \<^verbatim>\<open>calc_arity\<close>: the vector holds
  \<^verbatim>\<open>d_arity * d_dimensionality\<close> points.\<close>

definition valid_constellation :: "'a constellation_scheme \<Rightarrow> bool" where
  "valid_constellation c = (length (d_constellation c) = d_arity c * d_dimensionality c)"

text \<open>The squared distance as the component design words it: the sum over the
  dimensions of the squared magnitude of the difference between the sample and the
  stored point of the symbol. \<^const>\<open>get_distance\<close> is compared with it below.\<close>

definition squaredDistance :: "'a constellation_scheme \<Rightarrow> nat \<Rightarrow> complex list \<Rightarrow> real" where
  "squaredDistance c index sample =
     (\<Sum>d\<leftarrow>[0..<d_dimensionality c].
        (cmod (sample ! d - d_constellation c ! (index * d_dimensionality c + d)))\<^sup>2)"

text \<open>\<open>m\<close> is the first index below \<open>n\<close> at which \<open>f\<close> is least.\<close>

definition first_min :: "(nat \<Rightarrow> real) \<Rightarrow> nat \<Rightarrow> nat \<Rightarrow> bool" where
  "first_min f m n = (m < n \<and> (\<forall>j<n. f m \<le> f j) \<and> (\<forall>j<m. f m < f j))"

subsection \<open>The closed-form constellations\<close>

definition SQRT_TWO :: real where
  "SQRT_TWO = 707107 / 1000000"

definition constellation_bpsk :: "error + constellation" where
  "constellation_bpsk =
     (case constellation_default of
        Inl e \<Rightarrow> Inl e
      | Inr c \<Rightarrow>
          calc_arity (c\<lparr>d_constellation := [Complex (- 1) 0, Complex 1 0],
                        d_rotational_symmetry := 2,
                        d_dimensionality := 1\<rparr>))"

definition constellation_bpsk_decision_maker :: "complex list \<Rightarrow> error + nat" where
  "constellation_bpsk_decision_maker sample =
     (case vec_at sample 0 of
        Inl e \<Rightarrow> Inl e
      | Inr z \<Rightarrow> Inr (if Re z > 0 then 1 else 0))"

definition constellation_qpsk :: "error + constellation" where
  "constellation_qpsk =
     (case constellation_default of
        Inl e \<Rightarrow> Inl e
      | Inr c \<Rightarrow>
          calc_arity (c\<lparr>d_constellation :=
                          [Complex (- SQRT_TWO) (- SQRT_TWO), Complex SQRT_TWO (- SQRT_TWO),
                           Complex (- SQRT_TWO) SQRT_TWO, Complex SQRT_TWO SQRT_TWO],
                        d_pre_diff_code := [0, 2, 3, 1],
                        d_rotational_symmetry := 4,
                        d_dimensionality := 1\<rparr>))"

definition constellation_qpsk_decision_maker :: "complex list \<Rightarrow> error + nat" where
  "constellation_qpsk_decision_maker sample =
     (case vec_at sample 0 of
        Inl e \<Rightarrow> Inl e
      | Inr z \<Rightarrow> Inr (2 * (if Im z > 0 then 1 else 0) + (if Re z > 0 then 1 else 0)))"

definition constellation_dqpsk :: "error + constellation" where
  "constellation_dqpsk =
     (case constellation_default of
        Inl e \<Rightarrow> Inl e
      | Inr c \<Rightarrow>
          calc_arity (c\<lparr>d_constellation :=
                          [Complex SQRT_TWO SQRT_TWO, Complex (- SQRT_TWO) SQRT_TWO,
                           Complex (- SQRT_TWO) (- SQRT_TWO), Complex SQRT_TWO (- SQRT_TWO)],
                        d_pre_diff_code := [0, 1, 3, 2],
                        d_apply_pre_diff_code := True,
                        d_rotational_symmetry := 4,
                        d_dimensionality := 1\<rparr>))"

definition constellation_dqpsk_decision_maker :: "complex list \<Rightarrow> error + nat" where
  "constellation_dqpsk_decision_maker sample =
     (case vec_at sample 0 of
        Inl e \<Rightarrow> Inl e
      | Inr z \<Rightarrow>
          (let a = (Re z > 0); b = (Im z > 0)
           in if a then (if b then Inr 0 else Inr 3)
              else (if b then Inr 1 else Inr 2)))"

definition constellation_8psk :: "error + constellation" where
  "constellation_8psk =
     (case constellation_default of
        Inl e \<Rightarrow> Inl e
      | Inr c \<Rightarrow>
          (let angle = pi / 8
           in calc_arity (c\<lparr>d_constellation :=
                          [Complex (cos (1 * angle)) (sin (1 * angle)),
                           Complex (cos (7 * angle)) (sin (7 * angle)),
                           Complex (cos (15 * angle)) (sin (15 * angle)),
                           Complex (cos (9 * angle)) (sin (9 * angle)),
                           Complex (cos (3 * angle)) (sin (3 * angle)),
                           Complex (cos (5 * angle)) (sin (5 * angle)),
                           Complex (cos (13 * angle)) (sin (13 * angle)),
                           Complex (cos (11 * angle)) (sin (11 * angle))],
                        d_rotational_symmetry := 8,
                        d_dimensionality := 1\<rparr>)))"

definition constellation_8psk_decision_maker :: "complex list \<Rightarrow> error + nat" where
  "constellation_8psk_decision_maker sample =
     (case vec_at sample 0 of
        Inl e \<Rightarrow> Inl e
      | Inr z \<Rightarrow>
          (let re = Re z; im = Im z;
               ret0 = (0 :: nat);
               ret1 = (if \<bar>re\<bar> \<le> \<bar>im\<bar> then 4 else ret0);
               ret2 = (if re \<le> 0 then or ret1 1 else ret1);
               ret3 = (if im \<le> 0 then or ret2 2 else ret2)
           in Inr ret3))"

subsection \<open>Sector-based constellations\<close>

record constellation_sector = constellation +
  n_sectors :: nat
  sector_values :: "nat list"

definition constellation_sector_ctor ::
  "complex list \<Rightarrow> int list \<Rightarrow> nat \<Rightarrow> nat \<Rightarrow> nat \<Rightarrow> error + constellation_sector" where
  "constellation_sector_ctor constell pre_diff_code rotational_symmetry dimensionality n =
     (case constellation_ctor constell pre_diff_code rotational_symmetry dimensionality of
        Inl e \<Rightarrow> Inl e
      | Inr c \<Rightarrow> Inr (constellation.extend c (constellation_sector.fields n [])))"

definition constellation_sector_decision_maker ::
  "('a constellation_sector_scheme \<Rightarrow> complex list \<Rightarrow> error + nat)
   \<Rightarrow> 'a constellation_sector_scheme \<Rightarrow> complex list \<Rightarrow> error + nat" where
  \<comment> \<open>The first argument is the virtual \<^verbatim>\<open>get_sector\<close> of the dynamic type.\<close>
  "constellation_sector_decision_maker get_sector c sample =
     (case get_sector c sample of
        Inl e \<Rightarrow> Inl e
      | Inr sector \<Rightarrow> vec_at (sector_values c) sector)"

fun find_sector_values_loop ::
  "('a constellation_sector_scheme \<Rightarrow> nat \<Rightarrow> error + nat)
   \<Rightarrow> 'a constellation_sector_scheme \<Rightarrow> nat list \<Rightarrow> error + 'a constellation_sector_scheme" where
  "find_sector_values_loop calc_sector_value c [] = Inr c"
| "find_sector_values_loop calc_sector_value c (i # is) =
     (case calc_sector_value c i of
        Inl e \<Rightarrow> Inl e
      | Inr v \<Rightarrow>
          find_sector_values_loop calc_sector_value
            (c\<lparr>sector_values := sector_values c @ [v]\<rparr>) is)"

definition find_sector_values ::
  "('a constellation_sector_scheme \<Rightarrow> nat \<Rightarrow> error + nat)
   \<Rightarrow> 'a constellation_sector_scheme \<Rightarrow> error + 'a constellation_sector_scheme" where
  \<comment> \<open>The first argument is the \<^verbatim>\<open>calc_sector_value\<close> that the virtual call reaches.\<close>
  "find_sector_values calc_sector_value c =
     find_sector_values_loop calc_sector_value (c\<lparr>sector_values := []\<rparr>) [0..<n_sectors c]"

record constellation_rect = constellation_sector +
  n_real_sectors :: nat
  n_imag_sectors :: nat
  d_width_real_sectors :: real
  d_width_imag_sectors :: real

definition constellation_rect_get_sector ::
  "int \<Rightarrow> int \<Rightarrow> 'a constellation_rect_scheme \<Rightarrow> complex list \<Rightarrow> error + nat" where
  \<comment> \<open>\<open>ub_re\<close> and \<open>ub_im\<close> are what the two conversions \<^verbatim>\<open>int(...)\<close> yield where they are
     undefined. \<^verbatim>\<open>(int)n_real_sectors\<close> is \<open>s32\<close> of the count; \<^verbatim>\<open>n_real_sectors-1\<close> is
     unsigned and is stored in an \<^verbatim>\<open>int\<close>; the last line is unsigned arithmetic.\<close>
  "constellation_rect_get_sector ub_re ub_im c sample =
     (case vec_at sample 0 of
        Inl e \<Rightarrow> Inl e
      | Inr z \<Rightarrow>
          (let real_sector0 =
                 (if d_width_real_sectors c = 0 then s32 ub_re
                  else float_to_int32 ub_re (Re z / d_width_real_sectors c
                                             + real (n_real_sectors c) / 2));
               real_sector1 = (if real_sector0 < 0 then 0 else real_sector0);
               real_sector = (if real_sector1 \<ge> s32 (int (n_real_sectors c))
                              then s32 (int (u32 (int (n_real_sectors c) - 1)))
                              else real_sector1);
               imag_sector0 =
                 (if d_width_imag_sectors c = 0 then s32 ub_im
                  else float_to_int32 ub_im (Im z / d_width_imag_sectors c
                                             + real (n_imag_sectors c) / 2));
               imag_sector1 = (if imag_sector0 < 0 then 0 else imag_sector0);
               imag_sector = (if imag_sector1 \<ge> s32 (int (n_imag_sectors c))
                              then s32 (int (u32 (int (n_imag_sectors c) - 1)))
                              else imag_sector1);
               sector = u32 (int (u32 real_sector) * int (n_imag_sectors c)
                             + int (u32 imag_sector))
           in Inr sector))"

definition constellation_rect_calc_sector_center ::
  "'a constellation_rect_scheme \<Rightarrow> nat \<Rightarrow> complex" where
  "constellation_rect_calc_sector_center c sector =
     (let real_sector = nat (float_to_int (real sector / real (n_imag_sectors c)));
          imag_sector = sector - real_sector * n_imag_sectors c
      in Complex ((real real_sector + 0.5 - real (n_real_sectors c) / 2) * d_width_real_sectors c)
                 ((real imag_sector + 0.5 - real (n_imag_sectors c) / 2) * d_width_imag_sectors c))"

definition constellation_rect_calc_sector_value ::
  "'a constellation_rect_scheme \<Rightarrow> nat \<Rightarrow> error + nat" where
  "constellation_rect_calc_sector_value c sector =
     get_closest_point c [constellation_rect_calc_sector_center c sector]"

definition constellation_rect_ctor ::
  "complex list \<Rightarrow> int list \<Rightarrow> nat \<Rightarrow> nat \<Rightarrow> nat \<Rightarrow> real \<Rightarrow> real
   \<Rightarrow> error + constellation_rect" where
  \<comment> \<open>\<^verbatim>\<open>real_sectors * imag_sectors\<close> is a product of two \<^verbatim>\<open>unsigned int\<close>.\<close>
  "constellation_rect_ctor constell pre_diff_code rotational_symmetry real_sectors imag_sectors
       width_real_sectors width_imag_sectors =
     (case constellation_sector_ctor constell pre_diff_code rotational_symmetry 1
             (u32 (int real_sectors * int imag_sectors)) of
        Inl e \<Rightarrow> Inl e
      | Inr s \<Rightarrow>
          (let c = constellation_sector.extend s
                     (constellation_rect.fields real_sectors imag_sectors
                        width_real_sectors width_imag_sectors);
               c1 = c\<lparr>d_width_real_sectors := d_width_real_sectors c * d_scalefactor c\<rparr>;
               c2 = c1\<lparr>d_width_imag_sectors := d_width_imag_sectors c1 * d_scalefactor c1\<rparr>
           in find_sector_values constellation_rect_calc_sector_value c2))"


text \<open>
  \<^verbatim>\<open>constellation_expl_rect\<close>: its constructor runs the constructor of
  \<^verbatim>\<open>constellation_rect\<close>, which fills \<^verbatim>\<open>sector_values\<close> by \<^verbatim>\<open>find_sector_values\<close>. While
  a base-class constructor runs, a virtual call reaches the base class's function, here
  \<^verbatim>\<open>constellation_rect::calc_sector_value\<close>. The constructor then stores its last argument
  in the member \<^verbatim>\<open>d_sector_values\<close>. The file defines no other \<^verbatim>\<open>decision_maker\<close> for the
  class than the inherited \<^verbatim>\<open>constellation_sector::decision_maker\<close>.
\<close>

record constellation_expl_rect = constellation_rect +
  d_sector_values :: "nat list"

definition constellation_expl_rect_ctor ::
  "complex list \<Rightarrow> int list \<Rightarrow> nat \<Rightarrow> nat \<Rightarrow> nat \<Rightarrow> real \<Rightarrow> real \<Rightarrow> nat list
   \<Rightarrow> error + constellation_expl_rect" where
  "constellation_expl_rect_ctor constell pre_diff_code rotational_symmetry real_sectors
       imag_sectors width_real_sectors width_imag_sectors sector_values_arg =
     (case constellation_rect_ctor constell pre_diff_code rotational_symmetry real_sectors
             imag_sectors width_real_sectors width_imag_sectors of
        Inl e \<Rightarrow> Inl e
      | Inr r \<Rightarrow>
          Inr (constellation_rect.extend r (constellation_expl_rect.fields sector_values_arg)))"

definition constellation_expl_rect_decision_maker ::
  "int \<Rightarrow> int \<Rightarrow> constellation_expl_rect \<Rightarrow> complex list \<Rightarrow> error + nat" where
  "constellation_expl_rect_decision_maker ub_re ub_im c sample =
     constellation_sector_decision_maker (constellation_rect_get_sector ub_re ub_im) c sample"





subsection \<open>Decision with phase error\<close>

fun decision_maker_pe_loop ::
  "'a constellation_scheme \<Rightarrow> nat \<Rightarrow> complex list \<Rightarrow> nat list \<Rightarrow> real \<Rightarrow> error + real" where
  "decision_maker_pe_loop c index sample [] phase_error = Inr phase_error"
| "decision_maker_pe_loop c index sample (d # ds) phase_error =
     (case vec_at sample d of
        Inl e \<Rightarrow> Inl e
      | Inr s \<Rightarrow>
          (case vec_at (d_constellation c) (index + d) of
             Inl e \<Rightarrow> Inl e
           | Inr p \<Rightarrow>
               decision_maker_pe_loop c index sample ds (phase_error + - Arg (s * cnj p))))"

definition decision_maker_pe ::
  "('a constellation_scheme \<Rightarrow> complex list \<Rightarrow> error + nat)
   \<Rightarrow> 'a constellation_scheme \<Rightarrow> complex list \<Rightarrow> error + nat \<times> real" where
  \<comment> \<open>The first argument is the virtual \<^verbatim>\<open>decision_maker\<close> of the dynamic type.\<close>
  "decision_maker_pe decision_maker c sample =
     (case decision_maker c sample of
        Inl e \<Rightarrow> Inl e
      | Inr index \<Rightarrow>
          (case decision_maker_pe_loop c index sample [0..<d_dimensionality c] 0 of
             Inl e \<Rightarrow> Inl e
           | Inr phase_error \<Rightarrow> Inr (index, phase_error)))"

text \<open>The phase error as the component design words it: the negative sum over the
  dimensions of the argument of the sample times the conjugate of the reference point of
  the decided symbol, \<^verbatim>\<open>points[index * D + d]\<close>.\<close>

definition phaseError :: "'a constellation_scheme \<Rightarrow> nat \<Rightarrow> complex list \<Rightarrow> real" where
  "phaseError c index sample =
     - (\<Sum>d\<leftarrow>[0..<d_dimensionality c].
          Arg (sample ! d * cnj (d_constellation c ! (index * d_dimensionality c + d))))"

subsection \<open>Soft decisions\<close>

fun calc_soft_dec_bits ::
  "'a constellation_scheme \<Rightarrow> nat \<Rightarrow> real \<Rightarrow> nat list \<Rightarrow> real list \<Rightarrow> error + real list" where
  \<comment> \<open>The loop over the bit positions \<^verbatim>\<open>j\<close> for the symbol \<^verbatim>\<open>i\<close>.\<close>
  "calc_soft_dec_bits c i d [] tmp = Inr tmp"
| "calc_soft_dec_bits c i d (j # js) tmp =
     (let mask = push_bit j (1 :: int)
      in case vec_at (d_pre_diff_code c) i of
           Inl e \<Rightarrow> Inl e
         | Inr w \<Rightarrow>
             (let bit = drop_bit j (and w mask)
              in if bit = 0
                 then calc_soft_dec_bits c i d js (tmp[2 * j + 0 := tmp ! (2 * j + 0) + d])
                 else calc_soft_dec_bits c i d js (tmp[2 * j + 1 := tmp ! (2 * j + 1) + d])))"

fun calc_soft_dec_symbols ::
  "'a constellation_scheme \<Rightarrow> complex \<Rightarrow> real \<Rightarrow> real \<Rightarrow> nat \<Rightarrow> nat list \<Rightarrow> real list
   \<Rightarrow> error + real list" where
  \<comment> \<open>The loop over the symbols \<^verbatim>\<open>i\<close>.\<close>
  "calc_soft_dec_symbols c sample npwr scale k [] tmp = Inr tmp"
| "calc_soft_dec_symbols c sample npwr scale k (i # is) tmp =
     (case vec_at (d_constellation c) i of
        Inl e \<Rightarrow> Inl e
      | Inr p \<Rightarrow>
          (let dst = (cmod (sample - p)) powr 2;
               d = exp (- dst / (2 * npwr * scale))
           in case calc_soft_dec_bits c i d [0..<k] tmp of
                Inl e \<Rightarrow> Inl e
              | Inr tmp' \<Rightarrow> calc_soft_dec_symbols c sample npwr scale k is tmp'))"

definition calc_soft_dec :: "'a constellation_scheme \<Rightarrow> complex \<Rightarrow> real \<Rightarrow> error + real list" where
  "calc_soft_dec c sample npwr =
     (let M = int (length (d_constellation c));
          k = float_to_int (ln (real_of_int M) / ln 2);
          tmp = replicate (nat (2 * k)) 0;
          scale = d_scalefactor c * d_scalefactor c
      in case calc_soft_dec_symbols c sample npwr scale (nat k) [0..<nat M] tmp of
           Inl e \<Rightarrow> Inl e
         | Inr tmp' \<Rightarrow>
             Inr (rev (map (\<lambda>i. (ln (tmp' ! (2 * i + 1)) - ln (tmp' ! (2 * i + 0))) * scale)
                        [0..<nat k])))"

definition max_min_axes_step :: "'a constellation_scheme \<Rightarrow> complex \<Rightarrow> 'a constellation_scheme" where
  "max_min_axes_step c p =
     (let c1 = (if Re p > d_re_max c then c\<lparr>d_re_max := Re p\<rparr> else c);
          c2 = (if Im p > d_im_max c1 then c1\<lparr>d_im_max := Im p\<rparr> else c1);
          c3 = (if Re p < d_re_min c2 then c2\<lparr>d_re_min := Re p\<rparr> else c2);
          c4 = (if Im p < d_im_min c3 then c3\<lparr>d_im_min := Im p\<rparr> else c3)
      in c4)"

definition max_min_axes :: "'a constellation_scheme \<Rightarrow> 'a constellation_scheme" where
  "max_min_axes c =
     (let c0 = c\<lparr>d_re_min := 10 ^ 20, d_im_min := 10 ^ 20,
                 d_re_max := - (10 ^ 20), d_im_max := - (10 ^ 20)\<rparr>;
          c1 = foldl max_min_axes_step c0 (d_constellation c0);
          c2 = (if d_im_min c1 = 0 then c1\<lparr>d_im_min := d_re_min c1\<rparr> else c1);
          c3 = (if d_im_max c2 = 0 then c2\<lparr>d_im_max := d_re_max c2\<rparr> else c2);
          c4 = (if d_re_min c3 = 0 then c3\<lparr>d_re_min := d_im_min c3\<rparr> else c3);
          c5 = (if d_re_max c4 = 0 then c4\<lparr>d_re_max := d_im_max c4\<rparr> else c4)
      in c5)"

text \<open>
  The two \<^verbatim>\<open>while\<close> loops of \<^verbatim>\<open>gen_soft_dec_lut\<close> step a float until it reaches a bound;
  with a step that is not positive they do not end, so they are partial functions and
  \<open>None\<close> is the loop that runs forever. The argument \<open>f\<close> is \<^verbatim>\<open>calc_soft_dec\<close> at the
  given noise power.
\<close>

partial_function (option) gen_soft_dec_lut_row ::
  "(complex \<Rightarrow> error + real list) \<Rightarrow> real \<Rightarrow> real \<Rightarrow> real \<Rightarrow> real \<Rightarrow> real list list
   \<Rightarrow> (error + real list list) option" where
  "gen_soft_dec_lut_row f y x re_max xstep lut =
     (if x < re_max
      then (case f (Complex x y) of
              Inl e \<Rightarrow> Some (Inl e)
            | Inr v \<Rightarrow> gen_soft_dec_lut_row f y (x + xstep) re_max xstep (lut @ [v]))
      else Some (Inr lut))"

partial_function (option) gen_soft_dec_lut_rows ::
  "(complex \<Rightarrow> error + real list) \<Rightarrow> real \<Rightarrow> real \<Rightarrow> real \<Rightarrow> real \<Rightarrow> real \<Rightarrow> real
   \<Rightarrow> real list list \<Rightarrow> (error + real list list) option" where
  "gen_soft_dec_lut_rows f y im_max ystep re_min re_max xstep lut =
     (if y < im_max
      then Option.bind (gen_soft_dec_lut_row f y re_min re_max xstep lut)
             (\<lambda>r. case r of
                     Inl e \<Rightarrow> Some (Inl e)
                   | Inr lut' \<Rightarrow>
                       gen_soft_dec_lut_rows f (y + ystep) im_max ystep re_min re_max xstep lut')
      else Some (Inr lut))"

definition gen_soft_dec_lut ::
  "'a constellation_scheme \<Rightarrow> int \<Rightarrow> real \<Rightarrow> (error + 'a constellation_scheme) option" where
  "gen_soft_dec_lut c precision npwr =
     (let c1 = max_min_axes c;
          c2 = c1\<lparr>d_lut_scale := 2 powr (real_of_int precision)\<rparr>;
          xstep = (d_re_max c2 - d_re_min c2) / (d_lut_scale c2 - 1);
          ystep = (d_im_max c2 - d_im_min c2) / (d_lut_scale c2 - 1)
      in Option.bind
           (gen_soft_dec_lut_rows (\<lambda>pt. calc_soft_dec c2 pt npwr) (d_im_min c2) (d_im_max c2) ystep
              (d_re_min c2) (d_re_max c2) xstep [])
           (\<lambda>r. case r of
                   Inl e \<Rightarrow> Some (Inl e)
                 | Inr lut \<Rightarrow>
                     Some (Inr (c2\<lparr>d_soft_dec_lut := lut, d_lut_precision := precision\<rparr>))))"

definition set_soft_dec_lut ::
  "'a constellation_scheme \<Rightarrow> real list list \<Rightarrow> int \<Rightarrow> 'a constellation_scheme" where
  "set_soft_dec_lut c soft_dec_lut precision =
     (max_min_axes c)\<lparr>d_soft_dec_lut := soft_dec_lut,
                       d_lut_precision := precision,
                       d_lut_scale := 2 powr (real_of_int precision)\<rparr>"

definition has_soft_dec_lut :: "'a constellation_scheme \<Rightarrow> bool" where
  "has_soft_dec_lut c = (length (d_soft_dec_lut c) > 0)"

definition soft_decision_maker ::
  "real \<Rightarrow> 'a constellation_scheme \<Rightarrow> complex \<Rightarrow> error + real list" where
  \<comment> \<open>The first argument is the default value of \<^verbatim>\<open>npwr\<close> in the declaration of
     \<^verbatim>\<open>calc_soft_dec\<close>, which is in the header.\<close>
  "soft_decision_maker npwr_default c sample =
     (if has_soft_dec_lut c then
        (let xre0 = Re sample;
             xim0 = Im sample;
             xstep = (d_re_max c - d_re_min c) / d_lut_scale c;
             ystep = (d_im_max c - d_im_min c) / d_lut_scale c;
             xscale = (d_lut_scale c / (d_re_max c - d_re_min c)) - xstep;
             yscale = (d_lut_scale c / (d_im_max c - d_im_min c)) - ystep;
             xre = real_of_int \<lfloor>(- d_re_min c + min (d_re_max c) (max (d_re_min c) xre0)) * xscale\<rfloor>;
             xim = real_of_int \<lfloor>(- d_im_min c + min (d_im_max c) (max (d_im_min c) xim0)) * yscale\<rfloor>;
             index = float_to_int (d_lut_scale c * xim + xre);
             max_index = float_to_int (d_lut_scale c * d_lut_scale c)
         in if index > max_index then vec_at_int (d_soft_dec_lut c) (max_index - 1)
            else if index < 0 then Inl RangeError
            else vec_at_int (d_soft_dec_lut c) index)
      else calc_soft_dec c sample npwr_default)"

section \<open>Construction\<close>

lemma summed_mag_foldl:
  "foldl (\<lambda>s c. s + sqrt (Re c * Re c + Im c * Im c)) a ps = a + (\<Sum>p\<leftarrow>ps. cmod p)"
  by (induction ps arbitrary: a) (simp_all add: cmod_def power2_eq_square add.assoc)

lemma summed_mag_of_eq: "summed_mag_of ps = (\<Sum>p\<leftarrow>ps. cmod p)"
  by (simp add: summed_mag_of_def summed_mag_foldl)

lemma constellation_ctor_cases:
  "constellation_ctor ps code rs D =
     (if code \<noteq> [] \<and> length code \<noteq> length ps then Inl ConfigurationError
      else if D = 0 then Inl DivisionByZero
      else if length ps mod D \<noteq> 0 then Inl ConfigurationError
      else Inr \<lparr>d_constellation = map (\<lambda>p. p * complex_of_real (real (length ps) / summed_mag_of ps)) ps,
               d_pre_diff_code = code,
               d_apply_pre_diff_code = (code \<noteq> []),
               d_rotational_symmetry = rs,
               d_dimensionality = D,
               d_arity = length ps div D,
               d_scalefactor = real (length ps) / summed_mag_of ps,
               d_re_min = 10 ^ 20, d_re_max = 10 ^ 20,
               d_im_min = 10 ^ 20, d_im_max = 10 ^ 20,
               d_soft_dec_lut = [],
               d_lut_precision = 0,
               d_lut_scale = 0\<rparr>)"
  by (simp add: constellation_ctor_def calc_arity_def Let_def)

lemma summed_mag_ones: "summed_mag_of [1, 1, 1, 1] = 4"
  by (simp add: summed_mag_of_def)

lemma sum_cmod_scaled:
  "(\<Sum>p\<leftarrow>map (\<lambda>p. p * complex_of_real s) ps. cmod p) = \<bar>s\<bar> * (\<Sum>p\<leftarrow>ps. cmod p)"
  by (induction ps) (simp_all add: norm_mult algebra_simps)

lemma sum_cmod_nonneg: "0 \<le> (\<Sum>p\<leftarrow>ps. cmod p)"
  by (induction ps) simp_all

subsection \<open>When construction fails\<close>

text \<open>
  C3, as stated: construction fails exactly when the number of points is not a multiple of
  the dimensionality or a non-empty pre-diff code has a length other than the arity.
  The constructor compares the length of the code with the number of stored complex
  points (\<^verbatim>\<open>constsize\<close>), not with the arity. With four points of dimensionality 2 (arity 2)
  a code of length 2 is valid by the claim, and the constructor throws.
\<close>

theorem construction_code_length_counterexample:
  "constellation_ctor [1, 1, 1, 1] [0, 1] 0 2 = Inl ConfigurationError
   \<and> length [1, 1, 1, 1 :: complex] mod 2 = 0
   \<and> length [0, 1 :: int] = length [1, 1, 1, 1 :: complex] div 2"
  by (simp add: constellation_ctor_cases)

text \<open>
  C3, amended: for a dimensionality of at least 1, construction throws exactly when a
  non-empty pre-diff code has a length other than the number of points
  (\<^verbatim>\<open>points.size()\<close>, which is the arity only for dimensionality 1), or the number of
  points is not a multiple of the dimensionality; on every other input it succeeds.
\<close>

theorem construction_fails_iff:
  assumes "0 < D"
  shows "(constellation_ctor ps code rs D = Inl ConfigurationError)
           = ((code \<noteq> [] \<and> length code \<noteq> length ps) \<or> length ps mod D \<noteq> 0)
       \<and> (\<exists>c. constellation_ctor ps code rs D = Inr c)
           = (\<not> ((code \<noteq> [] \<and> length code \<noteq> length ps) \<or> length ps mod D \<noteq> 0))"
  using assms by (auto simp add: constellation_ctor_cases)

text \<open>The amended statement at two inputs: a BPSK-like set with a code of length 2 is
  built, the two-dimensional set above with a code of length 2 is refused.\<close>

theorem construction_fails_iff_witness:
  "constellation_ctor [1, - 1] [0, 1] 2 1 \<noteq> Inl ConfigurationError
   \<and> (\<exists>c. constellation_ctor [1, - 1] [0, 1] 2 1 = Inr c)
   \<and> constellation_ctor [1, 1, 1, 1] [0, 1] 0 2 = Inl ConfigurationError"
  using construction_fails_iff [of 1 "[1, - 1]" "[0, 1]" 2]
    construction_fails_iff [of 2 "[1, 1, 1, 1]" "[0, 1]" 0]
  by simp

subsection \<open>Normalisation\<close>

text \<open>
  C4, as stated: the scale factor is the arity over the summed raw magnitude, and the
  stored magnitudes summed and divided by the arity give 1. The constructor divides the
  number of complex points, not the arity, by the summed magnitude. For four points 1 of
  dimensionality 2 the arity is 2, the scale factor is 1 and not 2 / 4, and the stored
  magnitudes over the arity give 2.
\<close>

theorem construction_mean_magnitude_counterexample:
  "\<not> isl (constellation_ctor [1, 1, 1, 1] [] 0 2)
   \<and> d_arity (projr (constellation_ctor [1, 1, 1, 1] [] 0 2)) = 2
   \<and> d_scalefactor (projr (constellation_ctor [1, 1, 1, 1] [] 0 2)) = 1
   \<and> real 2 / summed_mag_of [1, 1, 1, 1] = 1 / 2
   \<and> d_constellation (projr (constellation_ctor [1, 1, 1, 1] [] 0 2)) = [1, 1, 1, 1]
   \<and> mean_magnitude (projr (constellation_ctor [1, 1, 1, 1] [] 0 2)) = 2"
  by (simp add: constellation_ctor_cases summed_mag_ones mean_magnitude_def)

text \<open>
  C4, amended: when construction succeeds on raw points of non-zero summed magnitude,
  the scale factor is the number of points \<^verbatim>\<open>points.size()\<close> (arity times dimensionality,
  the arity itself for dimensionality 1) over the summed raw magnitude, every stored
  point is the raw point times the scale factor, and the stored magnitudes summed and
  divided by the number of points give 1.
\<close>

theorem construction_normalises:
  assumes "constellation_ctor ps code rs D = Inr c" and "summed_mag_of ps \<noteq> 0"
  shows "d_scalefactor c = real (length ps) / (\<Sum>p\<leftarrow>ps. cmod p)
       \<and> d_constellation c = map (\<lambda>p. p * complex_of_real (d_scalefactor c)) ps
       \<and> d_arity c * D = length ps
       \<and> (\<Sum>p\<leftarrow>d_constellation c. cmod p) / real (length ps) = 1"
proof -
  let ?S = "\<Sum>p\<leftarrow>ps. cmod p"
  have S: "?S \<noteq> 0" using assms(2) by (simp add: summed_mag_of_eq)
  then have Spos: "0 < ?S" using sum_cmod_nonneg [of ps] by linarith
  have ne: "ps \<noteq> []" using S by auto
  from assms(1) have sf: "d_scalefactor c = real (length ps) / ?S"
    by (auto simp add: constellation_ctor_cases summed_mag_of_eq split: if_splits)
  from assms(1) have pts: "d_constellation c = map (\<lambda>p. p * complex_of_real (d_scalefactor c)) ps"
    by (auto simp add: constellation_ctor_cases split: if_splits)
  from assms(1) have ar: "d_arity c = length ps div D" "length ps mod D = 0"
    by (auto simp add: constellation_ctor_cases split: if_splits)
  have arD: "d_arity c * D = length ps"
    using ar by (metis mod_0_imp_dvd dvd_div_mult_self)
  have "(\<Sum>p\<leftarrow>d_constellation c. cmod p) = \<bar>d_scalefactor c\<bar> * ?S"
    by (subst pts) (rule sum_cmod_scaled)
  also have "\<dots> = real (length ps)"
    using Spos by (simp add: sf)
  finally have "(\<Sum>p\<leftarrow>d_constellation c. cmod p) / real (length ps) = 1"
    using ne by simp
  with sf pts arD show ?thesis by blast
qed

text \<open>The amended statement on the two-dimensional set of the counterexample.\<close>

theorem construction_normalises_witness:
  "constellation_ctor [1, 1, 1, 1] [] 0 2 = Inr (projr (constellation_ctor [1, 1, 1, 1] [] 0 2))
   \<and> summed_mag_of [1, 1, 1, 1] \<noteq> 0
   \<and> d_scalefactor (projr (constellation_ctor [1, 1, 1, 1] [] 0 2)) = 1
   \<and> (\<Sum>p\<leftarrow>d_constellation (projr (constellation_ctor [1, 1, 1, 1] [] 0 2)). cmod p) / real 4 = 1"
proof -
  have h1: "constellation_ctor [1, 1, 1, 1] [] 0 2 = Inr (projr (constellation_ctor [1, 1, 1, 1] [] 0 2))"
    by (simp add: constellation_ctor_cases)
  have h2: "summed_mag_of [1, 1, 1, 1] \<noteq> 0" by (simp add: summed_mag_ones)
  show ?thesis using construction_normalises [OF h1 h2] h1 h2 by simp
qed

section \<open>Nearest-point search\<close>

lemma cnorm_cmod: "cnorm z = (cmod z)\<^sup>2"
  by (simp add: cnorm_def cmod_power2) (simp add: power2_eq_square)



lemma index_in_range:
  assumes "index < arity" "d < (D::nat)"
  shows "index * D + d < arity * D"
proof -
  have "index * D + d < index * D + D" using assms(2) by simp
  also have "\<dots> = (Suc index) * D" by simp
  also have "\<dots> \<le> arity * D" using assms(1) by (intro mult_le_mono1) simp
  finally show ?thesis .
qed

lemma get_distance_loop_eq:
  assumes "\<forall>d\<in>set ds. d < length sample \<and> index * d_dimensionality c + d < length (d_constellation c)"
  shows "get_distance_loop c index sample ds a
         = Inr (a + (\<Sum>d\<leftarrow>ds. (cmod (sample ! d - d_constellation c ! (index * d_dimensionality c + d)))\<^sup>2))"
  using assms by (induction ds arbitrary: a) (simp_all add: vec_at_def cnorm_cmod add.assoc)

lemma get_distance_eq:
  assumes "valid_constellation c" "index < d_arity c" "d_dimensionality c \<le> length sample"
  shows "get_distance c index sample = Inr (squaredDistance c index sample)"
proof -
  have "\<forall>d\<in>set [0..<d_dimensionality c].
          d < length sample \<and> index * d_dimensionality c + d < length (d_constellation c)"
    using assms index_in_range [of index "d_arity c" _ "d_dimensionality c"]
    by (auto simp add: valid_constellation_def)
  then show ?thesis
    unfolding get_distance_def squaredDistance_def
    by (simp only: get_distance_loop_eq) simp
qed

lemma get_closest_point_loop_first_min:
  assumes "\<forall>j<n. get_distance c j sample = Inr (f j)"
    and "first_min f m a" and "a \<le> n"
  shows "\<exists>m'. get_closest_point_loop c sample [a..<n] m (f m) = Inr m' \<and> first_min f m' n"
  using assms(2,3)
proof (induction "n - a" arbitrary: a m)
  case 0
  then show ?case by simp
next
  case (Suc k)
  then have an: "a < n" by simp
  then have da: "get_distance c a sample = Inr (f a)" using assms(1) by simp
  have upt: "[a..<n] = a # [Suc a..<n]" using an by (simp add: upt_conv_Cons)
  have k: "k = n - Suc a" using Suc.hyps(2) by simp
  show ?case
  proof (cases "f a < f m")
    case True
    have "first_min f a (Suc a)"
      using Suc.prems(1) True unfolding first_min_def
      by (auto simp add: less_Suc_eq)
    from Suc.hyps(1) [OF k this] an show ?thesis
      by (simp add: upt da True)
  next
    case False
    have "first_min f m (Suc a)"
      using Suc.prems(1) False unfolding first_min_def
      by (auto simp add: less_Suc_eq)
    from Suc.hyps(1) [OF k this] an show ?thesis
      by (simp add: upt da False)
  qed
qed

lemma get_closest_point_first_min:
  assumes "valid_constellation c" "0 < d_arity c" "d_dimensionality c \<le> length sample"
  shows "\<exists>m. get_closest_point c sample = Inr m
            \<and> first_min (\<lambda>j. squaredDistance c j sample) m (d_arity c)"
proof -
  let ?f = "\<lambda>j. squaredDistance c j sample"
  have all: "\<forall>j<d_arity c. get_distance c j sample = Inr (?f j)"
    using assms by (simp add: get_distance_eq)
  have fm: "first_min ?f 0 1" by (simp add: first_min_def)
  have "1 \<le> d_arity c" using assms(2) by simp
  from get_closest_point_loop_first_min [OF all fm this] all assms(2)
  show ?thesis by (simp add: get_closest_point_def)
qed

text \<open>A two-point set used as a concrete input below.\<close>

lemma summed_mag_pm1: "summed_mag_of [1, - 1] = 2"
  by (simp add: summed_mag_of_def)

lemma ctor_pm1:
  "constellation_ctor [1, - 1] [] 2 1 =
     Inr \<lparr>d_constellation = [1, - 1], d_pre_diff_code = [], d_apply_pre_diff_code = False,
          d_rotational_symmetry = 2, d_dimensionality = 1, d_arity = 2, d_scalefactor = 1,
          d_re_min = 10 ^ 20, d_re_max = 10 ^ 20, d_im_min = 10 ^ 20, d_im_max = 10 ^ 20,
          d_soft_dec_lut = [], d_lut_precision = 0, d_lut_scale = 0\<rparr>"
  by (simp add: constellation_ctor_cases summed_mag_pm1)

text \<open>
  C9: on a non-empty point set and a sample vector of the dimensionality's length, the
  nearest-point search returns an index below the arity at which the squared distance,
  as \<^const>\<open>get_distance\<close> computes it, is least over all symbols, and every smaller
  index has a strictly larger distance: the first index wins a tie.
\<close>

theorem nearest_point_search_first_minimum:
  assumes "valid_constellation c" and "0 < d_arity c" and "length sample = d_dimensionality c"
  shows "\<exists>m. constellation_calcdist_decision_maker c sample = Inr m
           \<and> m < d_arity c
           \<and> (\<forall>j<d_arity c. get_distance c j sample = Inr (squaredDistance c j sample)
                 \<and> squaredDistance c m sample \<le> squaredDistance c j sample)
           \<and> (\<forall>j<m. squaredDistance c m sample < squaredDistance c j sample)"
proof -
  have len: "d_dimensionality c \<le> length sample" using assms(3) by simp
  from get_closest_point_first_min [OF assms(1,2) len]
  obtain m where m: "get_closest_point c sample = Inr m"
    and fm: "first_min (\<lambda>j. squaredDistance c j sample) m (d_arity c)"
    by blast
  have "\<forall>j<d_arity c. get_distance c j sample = Inr (squaredDistance c j sample)"
    using assms(1) len by (simp add: get_distance_eq)
  with m fm show ?thesis
    unfolding constellation_calcdist_decision_maker_def first_min_def by blast
qed

text \<open>C9 on the stored points 1 and -1 and the sample 0: both distances are 1 and
  the search returns index 0.\<close>

theorem nearest_point_search_first_minimum_witness:
  "valid_constellation (projr (constellation_ctor [1, - 1] [] 2 1))
   \<and> 0 < d_arity (projr (constellation_ctor [1, - 1] [] 2 1))
   \<and> length [0 :: complex] = d_dimensionality (projr (constellation_ctor [1, - 1] [] 2 1))
   \<and> squaredDistance (projr (constellation_ctor [1, - 1] [] 2 1)) 0 [0] = 1
   \<and> squaredDistance (projr (constellation_ctor [1, - 1] [] 2 1)) 1 [0] = 1
   \<and> constellation_calcdist_decision_maker (projr (constellation_ctor [1, - 1] [] 2 1)) [0] = Inr 0"
proof -
  let ?c = "projr (constellation_ctor [1, - 1] [] 2 1)"
  have h1: "valid_constellation ?c" unfolding ctor_pm1 by (simp add: valid_constellation_def)
  have h2: "0 < d_arity ?c" unfolding ctor_pm1 by simp
  have h3: "length [0 :: complex] = d_dimensionality ?c" unfolding ctor_pm1 by simp
  have d0: "squaredDistance ?c 0 [0] = 1" unfolding ctor_pm1 by (simp add: squaredDistance_def)
  have d1: "squaredDistance ?c 1 [0] = 1" unfolding ctor_pm1 by (simp add: squaredDistance_def)
  from nearest_point_search_first_minimum [OF h1 h2 h3]
  obtain m where m: "constellation_calcdist_decision_maker ?c [0] = Inr m" "m < d_arity ?c"
    and lt: "\<forall>j<m. squaredDistance ?c m [0] < squaredDistance ?c j [0]"
    by blast
  have "m = 0"
  proof (rule ccontr)
    assume "m \<noteq> 0"
    then have "m = 1" using m(2) unfolding ctor_pm1 by simp
    then show False using lt d0 d1 by simp
  qed
  with m(1) h1 h2 h3 d0 d1 show ?thesis by simp
qed

section \<open>Hard decisions on the symbols themselves\<close>

lemma sin_cos_pi8: "0 < sin (pi / 8)" "sin (pi / 8) < cos (pi / 8)"
proof -
  show "0 < sin (pi / 8)" by (rule sin_gt_zero) simp_all
  have "sin (pi / 8) < sin (pi / 4)"
    by (rule sin_monotone_2pi) simp_all
  also have "\<dots> = cos (pi / 4)" by (simp add: sin_45 cos_45)
  also have "\<dots> < cos (pi / 8)"
    by (rule cos_monotone_0_pi) simp_all
  finally show "sin (pi / 8) < cos (pi / 8)" .
qed

lemma psk8_angles:
  "cos (7 * (pi / 8)) = - cos (pi / 8)" "sin (7 * (pi / 8)) = sin (pi / 8)"
  "cos (15 * (pi / 8)) = cos (pi / 8)" "sin (15 * (pi / 8)) = - sin (pi / 8)"
  "cos (9 * (pi / 8)) = - cos (pi / 8)" "sin (9 * (pi / 8)) = - sin (pi / 8)"
  "cos (3 * (pi / 8)) = sin (pi / 8)" "sin (3 * (pi / 8)) = cos (pi / 8)"
  "cos (5 * (pi / 8)) = - sin (pi / 8)" "sin (5 * (pi / 8)) = cos (pi / 8)"
  "cos (13 * (pi / 8)) = sin (pi / 8)" "sin (13 * (pi / 8)) = - cos (pi / 8)"
  "cos (11 * (pi / 8)) = - sin (pi / 8)" "sin (11 * (pi / 8)) = - cos (pi / 8)"
proof -
  have e7: "7 * (pi / 8) = pi - pi / 8" by simp
  have e15: "15 * (pi / 8) = 2 * pi - pi / 8" by simp
  have e9: "9 * (pi / 8) = pi / 8 + pi" by simp
  have e3: "3 * (pi / 8) = pi / 2 - pi / 8" by simp
  have e5: "5 * (pi / 8) = pi / 2 + pi / 8" by simp
  have e13: "13 * (pi / 8) = 3 / 2 * pi + pi / 8" by simp
  have e11: "11 * (pi / 8) = 3 / 2 * pi - pi / 8" by simp
  note vals = cos_two_pi sin_two_pi cos_pi_half sin_pi_half sin_3over2_pi cos_3over2_pi
  show "cos (7 * (pi / 8)) = - cos (pi / 8)" by (subst e7) (rule cos_pi_minus)
  show "sin (7 * (pi / 8)) = sin (pi / 8)" by (subst e7) (rule sin_pi_minus)
  show "cos (15 * (pi / 8)) = cos (pi / 8)" by (subst e15, simp only: cos_diff vals, (simp)?)
  show "sin (15 * (pi / 8)) = - sin (pi / 8)" by (subst e15, simp only: sin_diff vals, (simp)?)
  show "cos (9 * (pi / 8)) = - cos (pi / 8)" by (subst e9) (rule cos_periodic_pi)
  show "sin (9 * (pi / 8)) = - sin (pi / 8)" by (subst e9) (rule sin_periodic_pi)
  show "cos (3 * (pi / 8)) = sin (pi / 8)" by (subst e3, simp only: cos_diff vals, (simp)?)
  show "sin (3 * (pi / 8)) = cos (pi / 8)" by (subst e3, simp only: sin_diff vals, (simp)?)
  show "cos (5 * (pi / 8)) = - sin (pi / 8)" by (subst e5, simp only: cos_add vals, (simp)?)
  show "sin (5 * (pi / 8)) = cos (pi / 8)" by (subst e5, simp only: sin_add vals, (simp)?)
  show "cos (13 * (pi / 8)) = sin (pi / 8)" by (subst e13, simp only: cos_add vals, (simp)?)
  show "sin (13 * (pi / 8)) = - cos (pi / 8)" by (subst e13, simp only: sin_add vals, (simp)?)
  show "cos (11 * (pi / 8)) = - sin (pi / 8)" by (subst e11, simp only: cos_diff vals, (simp)?)
  show "sin (11 * (pi / 8)) = - cos (pi / 8)" by (subst e11, simp only: sin_diff vals, (simp)?)
qed

lemma constellation_default_eq:
  "constellation_default =
     Inr \<lparr>d_constellation = [], d_pre_diff_code = [], d_apply_pre_diff_code = False,
          d_rotational_symmetry = 0, d_dimensionality = 1, d_arity = 0, d_scalefactor = 1,
          d_re_min = 10 ^ 20, d_re_max = 10 ^ 20, d_im_min = 10 ^ 20, d_im_max = 10 ^ 20,
          d_soft_dec_lut = [], d_lut_precision = 0, d_lut_scale = 0\<rparr>"
  by (simp add: constellation_default_def calc_arity_def)

lemma map_to_points_v_dim1:
  assumes "d_dimensionality c = 1" and "i < length (d_constellation c)"
  shows "map_to_points_v c i = Inr [d_constellation c ! i]"
  using assms by (simp add: map_to_points_v_def vec_at_def)

lemma bpsk_self:
  "\<forall>i<2. \<exists>c pts. constellation_bpsk = Inr c \<and> map_to_points_v c i = Inr pts
                \<and> constellation_bpsk_decision_maker pts = Inr i"
  by (simp add: constellation_bpsk_def constellation_default_eq calc_arity_def
      map_to_points_v_dim1 constellation_bpsk_decision_maker_def vec_at_def less_Suc_eq
      numeral_2_eq_2)

lemma qpsk_self:
  "\<forall>i<4. \<exists>c pts. constellation_qpsk = Inr c \<and> map_to_points_v c i = Inr pts
                \<and> constellation_qpsk_decision_maker pts = Inr i"
  by (simp add: constellation_qpsk_def constellation_default_eq calc_arity_def
      map_to_points_v_dim1 constellation_qpsk_decision_maker_def vec_at_def less_Suc_eq
      numeral_eq_Suc SQRT_TWO_def)

lemma dqpsk_self:
  "\<forall>i<4. \<exists>c pts. constellation_dqpsk = Inr c \<and> map_to_points_v c i = Inr pts
                \<and> constellation_dqpsk_decision_maker pts = Inr i"
  by (simp add: constellation_dqpsk_def constellation_default_eq calc_arity_def
      map_to_points_v_dim1 constellation_dqpsk_decision_maker_def vec_at_def less_Suc_eq
      numeral_eq_Suc SQRT_TWO_def)

lemma psk8_decisions:
  assumes "0 < s" and "s < c"
  shows "constellation_8psk_decision_maker [Complex c s] = Inr 0"
    and "constellation_8psk_decision_maker [Complex (- c) s] = Inr 1"
    and "constellation_8psk_decision_maker [Complex c (- s)] = Inr 2"
    and "constellation_8psk_decision_maker [Complex (- c) (- s)] = Inr 3"
    and "constellation_8psk_decision_maker [Complex s c] = Inr 4"
    and "constellation_8psk_decision_maker [Complex (- s) c] = Inr 5"
    and "constellation_8psk_decision_maker [Complex s (- c)] = Inr 6"
    and "constellation_8psk_decision_maker [Complex (- s) (- c)] = Inr 7"
  using assms by (simp_all add: constellation_8psk_decision_maker_def vec_at_def)

lemma constellation_8psk_eq:
  "constellation_8psk =
     Inr \<lparr>d_constellation =
            [Complex (cos (pi / 8)) (sin (pi / 8)), Complex (- cos (pi / 8)) (sin (pi / 8)),
             Complex (cos (pi / 8)) (- sin (pi / 8)), Complex (- cos (pi / 8)) (- sin (pi / 8)),
             Complex (sin (pi / 8)) (cos (pi / 8)), Complex (- sin (pi / 8)) (cos (pi / 8)),
             Complex (sin (pi / 8)) (- cos (pi / 8)), Complex (- sin (pi / 8)) (- cos (pi / 8))],
          d_pre_diff_code = [], d_apply_pre_diff_code = False,
          d_rotational_symmetry = 8, d_dimensionality = 1, d_arity = 8, d_scalefactor = 1,
          d_re_min = 10 ^ 20, d_re_max = 10 ^ 20, d_im_min = 10 ^ 20, d_im_max = 10 ^ 20,
          d_soft_dec_lut = [], d_lut_precision = 0, d_lut_scale = 0\<rparr>"
  unfolding constellation_8psk_def constellation_default_eq Let_def
  by (simp only: psk8_angles mult_1) (simp add: calc_arity_def)

lemma psk8_self:
  "\<forall>i<8. \<exists>c pts. constellation_8psk = Inr c \<and> map_to_points_v c i = Inr pts
                \<and> constellation_8psk_decision_maker pts = Inr i"
proof (intro allI impI)
  fix k :: nat
  assume "k < 8"
  then have "k \<in> set [0, 1, 2, 3, 4, 5, 6, 7]"
    by (simp add: less_Suc_eq numeral_eq_Suc)
  then show "\<exists>c pts. constellation_8psk = Inr c \<and> map_to_points_v c k = Inr pts
                \<and> constellation_8psk_decision_maker pts = Inr k"
    unfolding constellation_8psk_eq
    by (auto simp add: map_to_points_v_dim1 psk8_decisions [OF sin_cos_pi8])
qed

lemma map_to_points_loop_eq:
  assumes "\<forall>d\<in>set ds. v * d_dimensionality c + d < length (d_constellation c)"
  shows "map_to_points_loop c v ds acc
         = Inr (acc @ map (\<lambda>d. d_constellation c ! (v * d_dimensionality c + d)) ds)"
  using assms by (induction ds arbitrary: acc) (simp_all add: vec_at_def)

lemma map_to_points_v_eq:
  assumes "valid_constellation c" and "i < d_arity c"
  shows "map_to_points_v c i
         = Inr (map (\<lambda>d. d_constellation c ! (i * d_dimensionality c + d)) [0..<d_dimensionality c])"
proof -
  have "\<forall>d\<in>set [0..<d_dimensionality c]. i * d_dimensionality c + d < length (d_constellation c)"
    using assms index_in_range [of i "d_arity c" _ "d_dimensionality c"]
    by (auto simp add: valid_constellation_def)
  then show ?thesis
    unfolding map_to_points_v_def by (simp only: map_to_points_loop_eq) simp
qed

lemma squaredDistance_zero_iff:
  "squaredDistance c j sample = 0
   \<longleftrightarrow> (\<forall>d<d_dimensionality c. sample ! d = d_constellation c ! (j * d_dimensionality c + d))"
proof -
  have "squaredDistance c j sample = 0
        \<longleftrightarrow> (\<forall>x\<in>set (map (\<lambda>d. (cmod (sample ! d - d_constellation c ! (j * d_dimensionality c + d)))\<^sup>2)
                          [0..<d_dimensionality c]). x = 0)"
    unfolding squaredDistance_def by (rule sum_list_nonneg_eq_0_iff) auto
  then show ?thesis by auto
qed

lemma squaredDistance_nonneg: "0 \<le> squaredDistance c j sample"
  unfolding squaredDistance_def by (rule sum_list_nonneg) auto

lemma nearest_self:
  assumes "valid_constellation c" and "i < d_arity c"
    and "distinct (map (map_to_points_v c) [0..<d_arity c])"
  shows "\<exists>pts. map_to_points_v c i = Inr pts
               \<and> constellation_calcdist_decision_maker c pts = Inr i"
proof -
  let ?D = "d_dimensionality c"
  let ?pts = "map (\<lambda>d. d_constellation c ! (i * ?D + d)) [0..<?D]"
  have pi: "map_to_points_v c i = Inr ?pts" using assms(1,2) by (rule map_to_points_v_eq)
  have len: "?D \<le> length ?pts" by simp
  have pos: "0 < d_arity c" using assms(2) by simp
  from get_closest_point_first_min [OF assms(1) pos len]
  obtain m where m: "get_closest_point c ?pts = Inr m"
    and fm: "first_min (\<lambda>j. squaredDistance c j ?pts) m (d_arity c)"
    by blast
  have zi: "squaredDistance c i ?pts = 0"
    by (simp add: squaredDistance_zero_iff)
  have mlt: "m < d_arity c" using fm by (simp add: first_min_def)
  have "squaredDistance c m ?pts \<le> squaredDistance c i ?pts"
    using fm assms(2) by (simp add: first_min_def)
  then have "squaredDistance c m ?pts = 0"
    using zi squaredDistance_nonneg [of c m ?pts] by linarith
  then have "\<forall>d<?D. d_constellation c ! (i * ?D + d) = d_constellation c ! (m * ?D + d)"
    by (simp add: squaredDistance_zero_iff)
  then have "map_to_points_v c m = map_to_points_v c i"
    using map_to_points_v_eq [OF assms(1) mlt] pi by simp
  moreover have "inj_on (map_to_points_v c) (set [0..<d_arity c])"
    using assms(3) by (simp add: distinct_map)
  ultimately have "m = i" using mlt assms(2) by (auto dest: inj_onD)
  with m pi show ?thesis by (simp add: constellation_calcdist_decision_maker_def)
qed

lemma closed_form_arities:
  "\<exists>c. constellation_bpsk = Inr c \<and> d_arity c = 2"
  "\<exists>c. constellation_qpsk = Inr c \<and> d_arity c = 4"
  "\<exists>c. constellation_dqpsk = Inr c \<and> d_arity c = 4"
  "\<exists>c. constellation_8psk = Inr c \<and> d_arity c = 8"
  by (simp_all add: constellation_bpsk_def constellation_qpsk_def constellation_dqpsk_def
      constellation_8psk_eq constellation_default_eq calc_arity_def)

lemma self_consistent_pack:
  fixes K :: "error + constellation"
  assumes "\<exists>c. K = Inr c \<and> d_arity c = n"
    and "\<forall>i<n. \<exists>c pts. K = Inr c \<and> map_to_points_v c i = Inr pts \<and> dm pts = Inr i"
  shows "\<exists>c. K = Inr c \<and> d_arity c = n
           \<and> (\<forall>i<d_arity c. \<exists>pts. map_to_points_v c i = Inr pts \<and> dm pts = Inr i)"
proof -
  from assms(1) obtain c where c: "K = Inr c" "d_arity c = n" by blast
  have "\<exists>pts. map_to_points_v c i = Inr pts \<and> dm pts = Inr i" if "i < n" for i
  proof -
    from assms(2) that obtain c' pts where "K = Inr c'" "map_to_points_v c' i = Inr pts" "dm pts = Inr i"
      by blast
    with c(1) show ?thesis by auto
  qed
  with c show ?thesis by blast
qed

text \<open>
  C7: every closed-form constellation (BPSK, QPSK, DQPSK, 8-PSK) decides each of its
  own stored points as the index of that point, and the nearest-point search does so on
  every well-formed constellation whose symbols are pairwise distinct.
\<close>

theorem hard_decision_self_consistent:
  "(\<exists>c. constellation_bpsk = Inr c \<and> d_arity c = 2
        \<and> (\<forall>i<d_arity c. \<exists>pts. map_to_points_v c i = Inr pts
                \<and> constellation_bpsk_decision_maker pts = Inr i))
   \<and> (\<exists>c. constellation_qpsk = Inr c \<and> d_arity c = 4
        \<and> (\<forall>i<d_arity c. \<exists>pts. map_to_points_v c i = Inr pts
                \<and> constellation_qpsk_decision_maker pts = Inr i))
   \<and> (\<exists>c. constellation_dqpsk = Inr c \<and> d_arity c = 4
        \<and> (\<forall>i<d_arity c. \<exists>pts. map_to_points_v c i = Inr pts
                \<and> constellation_dqpsk_decision_maker pts = Inr i))
   \<and> (\<exists>c. constellation_8psk = Inr c \<and> d_arity c = 8
        \<and> (\<forall>i<d_arity c. \<exists>pts. map_to_points_v c i = Inr pts
                \<and> constellation_8psk_decision_maker pts = Inr i))
   \<and> (\<forall>(c :: constellation) i.
          valid_constellation c \<and> i < d_arity c
          \<and> distinct (map (map_to_points_v c) [0..<d_arity c])
          \<longrightarrow> (\<exists>pts. map_to_points_v c i = Inr pts
                 \<and> constellation_calcdist_decision_maker c pts = Inr i))"
proof (intro conjI)
  show "\<exists>c. constellation_bpsk = Inr c \<and> d_arity c = 2
        \<and> (\<forall>i<d_arity c. \<exists>pts. map_to_points_v c i = Inr pts
                \<and> constellation_bpsk_decision_maker pts = Inr i)"
    by (rule self_consistent_pack [OF closed_form_arities(1) bpsk_self])
  show "\<exists>c. constellation_qpsk = Inr c \<and> d_arity c = 4
        \<and> (\<forall>i<d_arity c. \<exists>pts. map_to_points_v c i = Inr pts
                \<and> constellation_qpsk_decision_maker pts = Inr i)"
    by (rule self_consistent_pack [OF closed_form_arities(2) qpsk_self])
  show "\<exists>c. constellation_dqpsk = Inr c \<and> d_arity c = 4
        \<and> (\<forall>i<d_arity c. \<exists>pts. map_to_points_v c i = Inr pts
                \<and> constellation_dqpsk_decision_maker pts = Inr i)"
    by (rule self_consistent_pack [OF closed_form_arities(3) dqpsk_self])
  show "\<exists>c. constellation_8psk = Inr c \<and> d_arity c = 8
        \<and> (\<forall>i<d_arity c. \<exists>pts. map_to_points_v c i = Inr pts
                \<and> constellation_8psk_decision_maker pts = Inr i)"
    by (rule self_consistent_pack [OF closed_form_arities(4) psk8_self])
  show "\<forall>(c :: constellation) i.
          valid_constellation c \<and> i < d_arity c
          \<and> distinct (map (map_to_points_v c) [0..<d_arity c])
          \<longrightarrow> (\<exists>pts. map_to_points_v c i = Inr pts
                 \<and> constellation_calcdist_decision_maker c pts = Inr i)"
    using nearest_self by blast
qed

text \<open>C7 at symbol 1 of the two-point set and at symbol 5 of 8-PSK.\<close>

theorem hard_decision_self_consistent_witness:
  "valid_constellation (projr (constellation_ctor [1, - 1] [] 2 1))
   \<and> 1 < d_arity (projr (constellation_ctor [1, - 1] [] 2 1))
   \<and> distinct (map (map_to_points_v (projr (constellation_ctor [1, - 1] [] 2 1)))
        [0..<d_arity (projr (constellation_ctor [1, - 1] [] 2 1))])
   \<and> map_to_points_v (projr (constellation_ctor [1, - 1] [] 2 1)) 1 = Inr [- 1]
   \<and> constellation_calcdist_decision_maker (projr (constellation_ctor [1, - 1] [] 2 1)) [- 1] = Inr 1
   \<and> map_to_points_v (projr constellation_8psk) 5 = Inr [Complex (- sin (pi / 8)) (cos (pi / 8))]
   \<and> constellation_8psk_decision_maker [Complex (- sin (pi / 8)) (cos (pi / 8))] = Inr 5"
proof -
  let ?c = "projr (constellation_ctor [1, - 1] [] 2 1)"
  have h1: "valid_constellation ?c" unfolding ctor_pm1 by (simp add: valid_constellation_def)
  have h2: "1 < d_arity ?c" unfolding ctor_pm1 by simp
  have m0: "map_to_points_v ?c 0 = Inr [1]" unfolding ctor_pm1 by (simp add: map_to_points_v_dim1)
  have m1: "map_to_points_v ?c 1 = Inr [- 1]" unfolding ctor_pm1 by (simp add: map_to_points_v_dim1)
  have ar: "[0..<d_arity ?c] = [0, 1]" unfolding ctor_pm1 by (simp add: upt_rec)
  have h3: "distinct (map (map_to_points_v ?c) [0..<d_arity ?c])"
    unfolding ar using m0 m1 by simp
  note near = hard_decision_self_consistent
    [THEN conjunct2, THEN conjunct2, THEN conjunct2, THEN conjunct2, rule_format]
  note psk = hard_decision_self_consistent
    [THEN conjunct2, THEN conjunct2, THEN conjunct2, THEN conjunct1]
  have n: "\<exists>pts. map_to_points_v ?c 1 = Inr pts
             \<and> constellation_calcdist_decision_maker ?c pts = Inr 1"
    by (rule near) (use h1 h2 h3 in simp)
  from psk obtain c8 where c8: "constellation_8psk = Inr c8" "d_arity c8 = 8"
    and all8: "\<forall>i<d_arity c8. \<exists>pts. map_to_points_v c8 i = Inr pts
                 \<and> constellation_8psk_decision_maker pts = Inr i"
    by blast
  have "\<exists>pts. map_to_points_v c8 5 = Inr pts \<and> constellation_8psk_decision_maker pts = Inr 5"
    using all8 c8(2) by simp
  then have p: "\<exists>pts. map_to_points_v (projr constellation_8psk) 5 = Inr pts
             \<and> constellation_8psk_decision_maker pts = Inr 5"
    by (simp add: c8(1))
  have p5: "map_to_points_v (projr constellation_8psk) 5 = Inr [Complex (- sin (pi / 8)) (cos (pi / 8))]"
    unfolding constellation_8psk_eq by (simp add: map_to_points_v_dim1)
  from n m1 have n1: "constellation_calcdist_decision_maker ?c [- 1] = Inr 1" by simp
  from p p5 have p1: "constellation_8psk_decision_maker [Complex (- sin (pi / 8)) (cos (pi / 8))] = Inr 5"
    by simp
  from h1 h2 h3 m1 n1 p5 p1 show ?thesis by (intro conjI)
qed

section \<open>Sector-based decisions\<close>

lemmas ctor_defs =
  constellation_expl_rect_ctor_def constellation_rect_ctor_def constellation_sector_ctor_def
  constellation.defs constellation_sector.defs constellation_rect.defs
  constellation_expl_rect.defs constellation_ctor_cases summed_mag_of_def Let_def
  find_sector_values_def upt_rec constellation_rect_calc_sector_value_def
  constellation_rect_calc_sector_center_def float_to_int_def get_closest_point_def
  get_distance_def vec_at_def cnorm_def u32_def s32_def float_to_int32_def

subsection \<open>The explicit rectangular variant\<close>

text \<open>
  C5 says that the explicit variant decides by the table the caller supplies. On the
  points -1 and 1 with two real sectors and one imaginary sector of width 1 and the
  supplied table \<open>[1, 0]\<close>, the sample -1/2 lies in sector 0. The supplied table maps
  sector 0 to symbol 1; the table the decision reads is the one the base constructor
  computed by nearest-point search, \<open>[0, 1]\<close>, and the decision is symbol 0. The
  supplied table is stored in \<^verbatim>\<open>d_sector_values\<close> and never read. No conversion to
  \<^verbatim>\<open>int\<close> is undefined on this sample.
\<close>

theorem expl_rect_decides_by_computed_table:
  "\<not> isl (constellation_expl_rect_ctor [- 1, 1] [] 2 2 1 1 1 [1, 0])
   \<and> d_sector_values (projr (constellation_expl_rect_ctor [- 1, 1] [] 2 2 1 1 1 [1, 0])) = [1, 0]
   \<and> sector_values (projr (constellation_expl_rect_ctor [- 1, 1] [] 2 2 1 1 1 [1, 0])) = [0, 1]
   \<and> constellation_rect_get_sector ub_re ub_im
         (projr (constellation_expl_rect_ctor [- 1, 1] [] 2 2 1 1 1 [1, 0]))
         [Complex (- 1 / 2) 0] = Inr 0
   \<and> constellation_expl_rect_decision_maker ub_re ub_im
         (projr (constellation_expl_rect_ctor [- 1, 1] [] 2 2 1 1 1 [1, 0]))
         [Complex (- 1 / 2) 0] = Inr 0"
  by (simp add: ctor_defs constellation_expl_rect_decision_maker_def
      constellation_sector_decision_maker_def constellation_rect_get_sector_def)

subsection \<open>Conversions between the 32-bit integers\<close>




lemma int_u32: "int (u32 i) = i mod 2 ^ 32"
  by (simp add: u32_def)







subsection \<open>The sector table that the constructors build\<close>














subsection \<open>The rectangular sector of a sample\<close>






subsection \<open>Sector centres\<close>











subsection \<open>Decisions at sector centres\<close>








section \<open>Phase error\<close>

lemma ctor_2d:
  "constellation_ctor [1, 1, \<i>, - 1] [] 0 2 =
     Inr \<lparr>d_constellation = [1, 1, \<i>, - 1], d_pre_diff_code = [], d_apply_pre_diff_code = False,
          d_rotational_symmetry = 0, d_dimensionality = 2, d_arity = 2, d_scalefactor = 1,
          d_re_min = 10 ^ 20, d_re_max = 10 ^ 20, d_im_min = 10 ^ 20, d_im_max = 10 ^ 20,
          d_soft_dec_lut = [], d_lut_precision = 0, d_lut_scale = 0\<rparr>"
  by (simp add: constellation_ctor_cases summed_mag_of_def)

lemma Arg_one: "Arg 1 = 0"
  by (rule cis_Arg_unique) simp_all

text \<open>
  C2 says that the phase error is taken against the stored points of the decided symbol,
  \<^verbatim>\<open>points[index * D + d]\<close>. The loop of \<^verbatim>\<open>decision_maker_pe\<close> reads
  \<^verbatim>\<open>d_constellation[index + d]\<close>. With dimensionality 2, the symbols \<open>(1, 1)\<close> and
  \<open>(\<i>, -1)\<close> and the sample \<open>(\<i>, -1)\<close>, which is symbol 1 itself, the decision is 1 and
  the claimed phase error is 0; the code compares the sample with the points at positions
  1 and 2, that is \<open>(1, \<i>)\<close>, and returns \<open>-\<pi>\<close>.
\<close>

theorem phase_error_reads_index_plus_d:
  "\<not> isl (constellation_ctor [1, 1, \<i>, - 1] [] 0 2)
   \<and> d_dimensionality (projr (constellation_ctor [1, 1, \<i>, - 1] [] 0 2)) = 2
   \<and> map_to_points_v (projr (constellation_ctor [1, 1, \<i>, - 1] [] 0 2)) 1 = Inr [\<i>, - 1]
   \<and> constellation_calcdist_decision_maker
         (projr (constellation_ctor [1, 1, \<i>, - 1] [] 0 2)) [\<i>, - 1] = Inr 1
   \<and> decision_maker_pe constellation_calcdist_decision_maker
         (projr (constellation_ctor [1, 1, \<i>, - 1] [] 0 2)) [\<i>, - 1] = Inr (1, - pi)
   \<and> phaseError (projr (constellation_ctor [1, 1, \<i>, - 1] [] 0 2)) 1 [\<i>, - 1] = 0"
proof -
  let ?c = "projr (constellation_ctor [1, 1, \<i>, - 1] [] 0 2)"
  have up: "[0..<2] = [0, Suc 0]" by (simp add: upt_rec)
  have d: "constellation_calcdist_decision_maker ?c [\<i>, - 1] = Inr 1"
    unfolding ctor_2d
    by (simp add: constellation_calcdist_decision_maker_def get_closest_point_def
        get_distance_def vec_at_def cnorm_def upt_rec)
  have pe: "decision_maker_pe constellation_calcdist_decision_maker ?c [\<i>, - 1] = Inr (1, - pi)"
    unfolding decision_maker_pe_def d unfolding ctor_2d
    by (simp add: vec_at_def up)
  have m: "map_to_points_v ?c 1 = Inr [\<i>, - 1]"
    unfolding ctor_2d by (simp add: map_to_points_v_def vec_at_def up)
  have p: "phaseError ?c 1 [\<i>, - 1] = 0"
    unfolding ctor_2d by (simp add: phaseError_def up Arg_one)
  have "\<not> isl (constellation_ctor [1, 1, \<i>, - 1] [] 0 2)" "d_dimensionality ?c = 2"
    unfolding ctor_2d by simp_all
  with d pe m p show ?thesis by (intro conjI)
qed

section \<open>Soft decisions\<close>

text \<open>
  C1 says that without a pre-diff code \<^verbatim>\<open>calc_soft_dec\<close> takes bit \<open>j\<close> of the symbol
  index \<open>i\<close> itself. The loop reads \<^verbatim>\<open>d_pre_diff_code[i]\<close> whatever
  \<^verbatim>\<open>d_apply_pre_diff_code\<close> says. On a two-point constellation built with an empty code,
  and on the built-in BPSK constellation, which sets no code, the first read is outside
  the empty vector, for every sample and noise power.
\<close>

theorem calc_soft_dec_reads_empty_code:
  "\<not> isl (constellation_ctor [- 1, 1] [] 2 1)
   \<and> d_pre_diff_code (projr (constellation_ctor [- 1, 1] [] 2 1)) = []
   \<and> \<not> d_apply_pre_diff_code (projr (constellation_ctor [- 1, 1] [] 2 1))
   \<and> calc_soft_dec (projr (constellation_ctor [- 1, 1] [] 2 1)) sample npwr = Inl OutOfBounds
   \<and> \<not> isl constellation_bpsk
   \<and> calc_soft_dec (projr constellation_bpsk) sample npwr = Inl OutOfBounds"
proof -
  have c: "constellation_ctor [- 1, 1] [] 2 1 =
     Inr \<lparr>d_constellation = [- 1, 1], d_pre_diff_code = [], d_apply_pre_diff_code = False,
          d_rotational_symmetry = 2, d_dimensionality = 1, d_arity = 2, d_scalefactor = 1,
          d_re_min = 10 ^ 20, d_re_max = 10 ^ 20, d_im_min = 10 ^ 20, d_im_max = 10 ^ 20,
          d_soft_dec_lut = [], d_lut_precision = 0, d_lut_scale = 0\<rparr>"
    by (simp add: constellation_ctor_cases summed_mag_of_def)
  have b: "constellation_bpsk =
     Inr \<lparr>d_constellation = [Complex (- 1) 0, Complex 1 0], d_pre_diff_code = [],
          d_apply_pre_diff_code = False,
          d_rotational_symmetry = 2, d_dimensionality = 1, d_arity = 2, d_scalefactor = 1,
          d_re_min = 10 ^ 20, d_re_max = 10 ^ 20, d_im_min = 10 ^ 20, d_im_max = 10 ^ 20,
          d_soft_dec_lut = [], d_lut_precision = 0, d_lut_scale = 0\<rparr>"
    by (simp add: constellation_bpsk_def constellation_default_eq calc_arity_def)
  show ?thesis
    unfolding c b
    by (simp add: calc_soft_dec_def Let_def float_to_int_def vec_at_def upt_rec)
qed

lemma calc_soft_dec_bits_defined:
  assumes "i < length (d_pre_diff_code c)"
  shows "\<exists>t. calc_soft_dec_bits c i d js tmp = Inr t"
  using assms by (induction js arbitrary: tmp) (simp_all add: vec_at_def Let_def)

lemma calc_soft_dec_symbols_defined:
  assumes "\<forall>i\<in>set is. i < length (d_constellation c) \<and> i < length (d_pre_diff_code c)"
  shows "\<exists>t. calc_soft_dec_symbols c sample npwr scale k is tmp = Inr t"
  using assms
proof (induction "is" arbitrary: tmp)
  case Nil
  then show ?case by simp
next
  case (Cons i "is")
  then have i: "i < length (d_constellation c)" "i < length (d_pre_diff_code c)" by simp_all
  from calc_soft_dec_bits_defined [OF i(2)]
  obtain t where "calc_soft_dec_bits c i
      (exp (- ((cmod (sample - d_constellation c ! i)) powr 2) / (2 * npwr * scale))) [0..<k] tmp = Inr t"
    by blast
  moreover from Cons obtain t' where "calc_soft_dec_symbols c sample npwr scale k is t = Inr t'"
    by fastforce
  ultimately show ?case using i(1) by (simp add: vec_at_def Let_def)
qed

lemma calc_soft_dec_defined:
  assumes "length (d_constellation c) \<le> length (d_pre_diff_code c)"
  shows "\<exists>v. calc_soft_dec c sample npwr = Inr v"
proof -
  let ?M = "int (length (d_constellation c))"
  let ?k = "float_to_int (ln (real_of_int ?M) / ln 2)"
  have "\<forall>i\<in>set [0..<nat ?M]. i < length (d_constellation c) \<and> i < length (d_pre_diff_code c)"
    using assms by simp
  from calc_soft_dec_symbols_defined [OF this]
  obtain t where "calc_soft_dec_symbols c sample npwr (d_scalefactor c * d_scalefactor c)
      (nat ?k) [0..<nat ?M] (replicate (nat (2 * ?k)) 0) = Inr t"
    by blast
  then show ?thesis by (simp add: calc_soft_dec_def Let_def)
qed

lemma sqrt_25: "sqrt 25 = 5"
proof -
  have "sqrt 25 = sqrt (5\<^sup>2)" by simp
  also have "\<dots> = 5" by (simp only: real_sqrt_abs abs_numeral)
  finally show ?thesis .
qed

lemma ctor_345:
  "constellation_ctor [Complex 3 4, Complex (- 3) (- 4), Complex (- 3) 4, Complex 3 (- 4)]
     [0, 1, 2, 3] 4 1 =
     Inr \<lparr>d_constellation = [Complex (3 / 5) (4 / 5), Complex (- 3 / 5) (- 4 / 5),
                              Complex (- 3 / 5) (4 / 5), Complex (3 / 5) (- 4 / 5)],
          d_pre_diff_code = [0, 1, 2, 3], d_apply_pre_diff_code = True,
          d_rotational_symmetry = 4, d_dimensionality = 1, d_arity = 4, d_scalefactor = 1 / 5,
          d_re_min = 10 ^ 20, d_re_max = 10 ^ 20, d_im_min = 10 ^ 20, d_im_max = 10 ^ 20,
          d_soft_dec_lut = [], d_lut_precision = 0, d_lut_scale = 0\<rparr>"
  by (simp add: constellation_ctor_cases summed_mag_of_def sqrt_25 complex_eq_iff)

lemma gen_soft_dec_lut_row_stop:
  "\<not> x < re_max \<Longrightarrow> gen_soft_dec_lut_row f y x re_max xstep lut = Some (Inr lut)"
  by (subst gen_soft_dec_lut_row.simps) simp

lemma gen_soft_dec_lut_row_step:
  "x < re_max \<Longrightarrow> f (Complex x y) = Inr v \<Longrightarrow>
   gen_soft_dec_lut_row f y x re_max xstep lut
   = gen_soft_dec_lut_row f y (x + xstep) re_max xstep (lut @ [v])"
  by (subst gen_soft_dec_lut_row.simps) simp

lemma gen_soft_dec_lut_rows_stop:
  "\<not> y < im_max \<Longrightarrow>
   gen_soft_dec_lut_rows f y im_max ystep re_min re_max xstep lut = Some (Inr lut)"
  by (subst gen_soft_dec_lut_rows.simps) simp

lemma gen_soft_dec_lut_rows_step:
  "y < im_max \<Longrightarrow> gen_soft_dec_lut_row f y re_min re_max xstep lut = Some (Inr lut') \<Longrightarrow>
   gen_soft_dec_lut_rows f y im_max ystep re_min re_max xstep lut
   = gen_soft_dec_lut_rows f (y + ystep) im_max ystep re_min re_max xstep lut'"
  by (subst gen_soft_dec_lut_rows.simps) simp

lemma max_min_axes_345:
  "max_min_axes
     \<lparr>d_constellation = [Complex (3 / 5) (4 / 5), Complex (- 3 / 5) (- 4 / 5),
                         Complex (- 3 / 5) (4 / 5), Complex (3 / 5) (- 4 / 5)],
      d_pre_diff_code = [0, 1, 2, 3], d_apply_pre_diff_code = True,
      d_rotational_symmetry = 4, d_dimensionality = 1, d_arity = 4, d_scalefactor = 1 / 5,
      d_re_min = 10 ^ 20, d_re_max = 10 ^ 20, d_im_min = 10 ^ 20, d_im_max = 10 ^ 20,
      d_soft_dec_lut = [], d_lut_precision = 0, d_lut_scale = 0\<rparr>
   = \<lparr>d_constellation = [Complex (3 / 5) (4 / 5), Complex (- 3 / 5) (- 4 / 5),
                           Complex (- 3 / 5) (4 / 5), Complex (3 / 5) (- 4 / 5)],
      d_pre_diff_code = [0, 1, 2, 3], d_apply_pre_diff_code = True,
      d_rotational_symmetry = 4, d_dimensionality = 1, d_arity = 4, d_scalefactor = 1 / 5,
      d_re_min = - 3 / 5, d_re_max = 3 / 5, d_im_min = - 4 / 5, d_im_max = 4 / 5,
      d_soft_dec_lut = [], d_lut_precision = 0, d_lut_scale = 0\<rparr>"
  by (simp add: max_min_axes_def max_min_axes_step_def Let_def)

lemma gen_soft_dec_lut_345:
  "\<exists>v. gen_soft_dec_lut
         (projr (constellation_ctor
            [Complex 3 4, Complex (- 3) (- 4), Complex (- 3) 4, Complex 3 (- 4)] [0, 1, 2, 3] 4 1))
         1 npwr
       = Some (Inr \<lparr>d_constellation = [Complex (3 / 5) (4 / 5), Complex (- 3 / 5) (- 4 / 5),
                                        Complex (- 3 / 5) (4 / 5), Complex (3 / 5) (- 4 / 5)],
                    d_pre_diff_code = [0, 1, 2, 3], d_apply_pre_diff_code = True,
                    d_rotational_symmetry = 4, d_dimensionality = 1, d_arity = 4,
                    d_scalefactor = 1 / 5,
                    d_re_min = - 3 / 5, d_re_max = 3 / 5, d_im_min = - 4 / 5, d_im_max = 4 / 5,
                    d_soft_dec_lut = [v], d_lut_precision = 1, d_lut_scale = 2\<rparr>)"
proof -
  let ?c2 = "\<lparr>d_constellation = [Complex (3 / 5) (4 / 5), Complex (- 3 / 5) (- 4 / 5),
                                 Complex (- 3 / 5) (4 / 5), Complex (3 / 5) (- 4 / 5)],
             d_pre_diff_code = [0, 1, 2, 3], d_apply_pre_diff_code = True,
             d_rotational_symmetry = 4, d_dimensionality = 1, d_arity = 4,
             d_scalefactor = 1 / 5,
             d_re_min = - 3 / 5, d_re_max = 3 / 5, d_im_min = - 4 / 5, d_im_max = 4 / 5,
             d_soft_dec_lut = [], d_lut_precision = 0, d_lut_scale = (2 :: real)\<rparr>"
  let ?f = "\<lambda>pt. calc_soft_dec ?c2 pt npwr"
  obtain v where v: "?f (Complex (- 3 / 5) (- 4 / 5)) = Inr v"
    using calc_soft_dec_defined [of ?c2 "Complex (- 3 / 5) (- 4 / 5)" npwr] by auto
  have "gen_soft_dec_lut_row ?f (- 4 / 5) (- 3 / 5) (3 / 5) (6 / 5) []
        = gen_soft_dec_lut_row ?f (- 4 / 5) (- 3 / 5 + 6 / 5) (3 / 5) (6 / 5) ([] @ [v])"
    by (rule gen_soft_dec_lut_row_step) (simp, rule v)
  also have "\<dots> = Some (Inr ([] @ [v]))"
    by (rule gen_soft_dec_lut_row_stop) simp
  finally have row: "gen_soft_dec_lut_row ?f (- 4 / 5) (- 3 / 5) (3 / 5) (6 / 5) [] = Some (Inr [v])"
    by simp
  have "gen_soft_dec_lut_rows ?f (- 4 / 5) (4 / 5) (8 / 5) (- 3 / 5) (3 / 5) (6 / 5) []
        = gen_soft_dec_lut_rows ?f (- 4 / 5 + 8 / 5) (4 / 5) (8 / 5) (- 3 / 5) (3 / 5) (6 / 5) [v]"
    by (rule gen_soft_dec_lut_rows_step) (simp, rule row)
  also have "\<dots> = Some (Inr [v])"
    by (rule gen_soft_dec_lut_rows_stop) simp
  finally have rows:
    "gen_soft_dec_lut_rows ?f (- 4 / 5) (4 / 5) (8 / 5) (- 3 / 5) (3 / 5) (6 / 5) [] = Some (Inr [v])" .
  have c2: "(max_min_axes (projr (constellation_ctor
            [Complex 3 4, Complex (- 3) (- 4), Complex (- 3) 4, Complex 3 (- 4)] [0, 1, 2, 3] 4 1)))
            \<lparr>d_lut_scale := 2 powr (real_of_int 1)\<rparr> = ?c2"
    unfolding ctor_345 sum.sel max_min_axes_345 by simp
  show ?thesis
    unfolding gen_soft_dec_lut_def Let_def c2 using rows
    by (intro exI [of _ v]) simp
qed

subsection \<open>The lookup\<close>

text \<open>Two parts of the lookup's contract hold as the design states them: without a
  table the result is \<^verbatim>\<open>calc_soft_dec\<close> at the default noise power, and the range error
  is raised exactly when a table exists and the flat index is negative.\<close>

lemma vec_at_error: "vec_at xs i = Inl e \<Longrightarrow> e = OutOfBounds"
  by (simp add: vec_at_def split: if_splits)

lemma vec_at_int_error: "vec_at_int xs i = Inl e \<Longrightarrow> e = OutOfBounds"
  by (simp add: vec_at_int_def split: if_splits)

lemma calc_soft_dec_bits_error:
  "calc_soft_dec_bits c i d js tmp = Inl e \<Longrightarrow> e = OutOfBounds"
  by (induction js arbitrary: tmp)
    (auto simp add: Let_def dest: vec_at_error split: sum.splits if_splits)

lemma calc_soft_dec_symbols_error:
  "calc_soft_dec_symbols c sample npwr scale k is tmp = Inl e \<Longrightarrow> e = OutOfBounds"
  by (induction "is" arbitrary: tmp)
    (auto simp add: Let_def dest: vec_at_error calc_soft_dec_bits_error split: sum.splits)

lemma calc_soft_dec_error: "calc_soft_dec c sample npwr = Inl e \<Longrightarrow> e = OutOfBounds"
  by (auto simp add: calc_soft_dec_def Let_def dest: calc_soft_dec_symbols_error split: sum.splits)

lemma soft_decision_maker_no_lut:
  "\<not> has_soft_dec_lut c \<Longrightarrow> soft_decision_maker npwr_default c sample = calc_soft_dec c sample npwr_default"
  by (simp add: soft_decision_maker_def)

lemma float_to_int_nonneg: "0 \<le> x \<Longrightarrow> 0 \<le> float_to_int x"
  by (simp add: float_to_int_def)

lemma soft_decision_maker_range_error:
  "soft_decision_maker npwr_default c sample = Inl RangeError
   \<longleftrightarrow> has_soft_dec_lut c
       \<and> float_to_int
           (d_lut_scale c
              * real_of_int \<lfloor>(- d_im_min c + min (d_im_max c) (max (d_im_min c) (Im sample)))
                              * (d_lut_scale c / (d_im_max c - d_im_min c)
                                 - (d_im_max c - d_im_min c) / d_lut_scale c)\<rfloor>
            + real_of_int \<lfloor>(- d_re_min c + min (d_re_max c) (max (d_re_min c) (Re sample)))
                              * (d_lut_scale c / (d_re_max c - d_re_min c)
                                 - (d_re_max c - d_re_min c) / d_lut_scale c)\<rfloor>) < 0"
proof -
  have m: "0 \<le> float_to_int (d_lut_scale c * d_lut_scale c)"
    by (rule float_to_int_nonneg) simp
  show ?thesis
  proof (cases "has_soft_dec_lut c")
    case False
    then show ?thesis
      using calc_soft_dec_error [of c sample npwr_default RangeError]
      by (auto simp add: soft_decision_maker_no_lut)
  next
    case True
    then show ?thesis
      unfolding soft_decision_maker_def Let_def using m
      by (auto dest: vec_at_int_error)
  qed
qed

text \<open>
  C6 says that the lookup returns the last entry of the table whenever the flat index
  is beyond it, and never reads outside the table. The guard of \<^verbatim>\<open>soft_decision_maker\<close>
  is \<^verbatim>\<open>index > max_index\<close> with \<^verbatim>\<open>max_index = d_lut_scale * d_lut_scale\<close>: it lets
  \<^verbatim>\<open>index = max_index\<close> through, and it bounds the index by the square of the grid
  size, not by the size of the table. On the constellation \<open>(\<plusminus>3, \<plusminus>4)\<close>, whose stored
  points are \<open>(\<plusminus>3/5, \<plusminus>4/5)\<close>, \<^verbatim>\<open>gen_soft_dec_lut\<close> with precision 1 steps once along
  each axis and builds a table of one entry; the lookup at the stored point
  \<open>(3/5, -4/5)\<close> computes index 1, which is not above \<open>max_index = 4\<close>, and reads
  entry 1 of that table.
\<close>

theorem soft_decision_lookup_reads_past_table:
  "gen_soft_dec_lut
     (projr (constellation_ctor
        [Complex 3 4, Complex (- 3) (- 4), Complex (- 3) 4, Complex 3 (- 4)] [0, 1, 2, 3] 4 1))
     1 npwr \<noteq> None
   \<and> \<not> isl (the (gen_soft_dec_lut
        (projr (constellation_ctor
           [Complex 3 4, Complex (- 3) (- 4), Complex (- 3) 4, Complex 3 (- 4)] [0, 1, 2, 3] 4 1))
        1 npwr))
   \<and> length (d_soft_dec_lut (projr (the (gen_soft_dec_lut
        (projr (constellation_ctor
           [Complex 3 4, Complex (- 3) (- 4), Complex (- 3) 4, Complex 3 (- 4)] [0, 1, 2, 3] 4 1))
        1 npwr)))) = 1
   \<and> d_lut_scale (projr (the (gen_soft_dec_lut
        (projr (constellation_ctor
           [Complex 3 4, Complex (- 3) (- 4), Complex (- 3) 4, Complex 3 (- 4)] [0, 1, 2, 3] 4 1))
        1 npwr))) = 2
   \<and> has_soft_dec_lut (projr (the (gen_soft_dec_lut
        (projr (constellation_ctor
           [Complex 3 4, Complex (- 3) (- 4), Complex (- 3) 4, Complex 3 (- 4)] [0, 1, 2, 3] 4 1))
        1 npwr)))
   \<and> soft_decision_maker npwr_default (projr (the (gen_soft_dec_lut
        (projr (constellation_ctor
           [Complex 3 4, Complex (- 3) (- 4), Complex (- 3) 4, Complex 3 (- 4)] [0, 1, 2, 3] 4 1))
        1 npwr))) (Complex (3 / 5) (- 4 / 5)) = Inl OutOfBounds"
proof -
  from gen_soft_dec_lut_345 [of npwr] obtain v where
    g: "gen_soft_dec_lut
         (projr (constellation_ctor
            [Complex 3 4, Complex (- 3) (- 4), Complex (- 3) 4, Complex 3 (- 4)] [0, 1, 2, 3] 4 1))
         1 npwr
       = Some (Inr \<lparr>d_constellation = [Complex (3 / 5) (4 / 5), Complex (- 3 / 5) (- 4 / 5),
                                        Complex (- 3 / 5) (4 / 5), Complex (3 / 5) (- 4 / 5)],
                    d_pre_diff_code = [0, 1, 2, 3], d_apply_pre_diff_code = True,
                    d_rotational_symmetry = 4, d_dimensionality = 1, d_arity = 4,
                    d_scalefactor = 1 / 5,
                    d_re_min = - 3 / 5, d_re_max = 3 / 5, d_im_min = - 4 / 5, d_im_max = 4 / 5,
                    d_soft_dec_lut = [v], d_lut_precision = 1, d_lut_scale = 2\<rparr>)"
    by blast
  show ?thesis
    unfolding g
    by (simp add: soft_decision_maker_def has_soft_dec_lut_def float_to_int_def vec_at_int_def
        Let_def)
qed

end
